theory Spec2Isabelle
  imports Main "HOL-Library.Word"
begin

section \<open>Python values, exceptions and the process environment\<close>

text \<open>
  The development embeds \<^verbatim>\<open>app.py\<close>: the class \<^verbatim>\<open>ClientApp\<close> and the routes
  \<^verbatim>\<open>warmup\<close>, \<^verbatim>\<open>predictRoute\<close> and \<^verbatim>\<open>predictLive\<close>. Exceptions are values
  (\<open>Inl\<close> of a sum), the filesystem and the console are explicit state, and the
  libraries the file calls into (the tensor runtime's loader, the shell started by
  \<^verbatim>\<open>os.system\<close>) are parameters collected in an environment record.
\<close>

type_synonym byte = "8 word"

datatype exn_kind =
    FileNotFoundError | FileExistsError | IsADirectoryError | NotADirectoryError
  | RuntimeError | AttributeError | TypeError | ValueError | BadRequest | EncodingError
  | OtherError

datatype exn = Exn (kind: exn_kind) (msg: string)

text \<open>\<^verbatim>\<open>str(e)\<close> of an exception is its message.\<close>

definition str_exn :: "exn \<Rightarrow> string" where
  "str_exn e = msg e"

text \<open>
  The filesystem is a tree. A node is a regular file with its bytes or a directory with
  its entries, in the order \<^verbatim>\<open>os.listdir\<close> reports them; both carry a modification
  time in ticks of the filesystem's clock. A filesystem is the root directory together
  with the working directory of the process, given by its components. There are no
  symbolic links and no permissions.
\<close>

datatype node = File int "byte list" | Dir int "(string \<times> node) list"

record filesystem =
  root :: node
  cwd :: "string list"

fun node_mtime :: "node \<Rightarrow> int" where
  "node_mtime (File t _) = t"
| "node_mtime (Dir t _) = t"

text \<open>
  The state of the serving process and its surroundings: the filesystem, the clock that
  stamps new nodes, the number of times \<^verbatim>\<open>torch.load\<close> has returned a model, the
  command strings handed to \<^verbatim>\<open>os.system\<close> and the lines printed.
\<close>

record world =
  fs :: filesystem
  clock :: int
  loads :: nat
  cmds :: "string list"
  stdout :: "string list"

text \<open>
  The collaborators outside the file: the directory that holds \<^verbatim>\<open>app.py\<close>
  (\<^verbatim>\<open>os.path.dirname(__file__)\<close>), the function \<^verbatim>\<open>torch.load\<close>, the effect of a shell
  command on the tree together with the value \<^verbatim>\<open>os.system\<close> returns or the exception
  it raises (a child process cannot move the working directory of the server), and the
  path at which the imported helper \<^verbatim>\<open>decodeImage\<close> stores a file of a given name.
\<close>

record 'm env =
  file_dir :: string
  torch_load :: "string \<Rightarrow> filesystem \<Rightarrow> exn + 'm"
  os_system :: "string \<Rightarrow> filesystem \<Rightarrow> (exn + int) \<times> node"
  decode_target :: "string \<Rightarrow> string"

definition print :: "string \<Rightarrow> world \<Rightarrow> world" where
  "print s w = w\<lparr>stdout := stdout w @ [s]\<rparr>"

subsection \<open>Strings and paths\<close>

definition startswith :: "string \<Rightarrow> string \<Rightarrow> bool" where
  "startswith s p = (take (length p) s = p)"

definition endswith :: "string \<Rightarrow> string \<Rightarrow> bool" where
  "endswith s p = (length p \<le> length s \<and> drop (length s - length p) s = p)"

text \<open>\<^verbatim>\<open>sep.join(parts)\<close>.\<close>

fun str_join :: "string \<Rightarrow> string list \<Rightarrow> string" where
  "str_join sep [] = []"
| "str_join sep [x] = x"
| "str_join sep (x # y # ys) = x @ sep @ str_join sep (y # ys)"

text \<open>\<^verbatim>\<open>s.split(sep)\<close> for a separator of one character.\<close>

fun split_on :: "char \<Rightarrow> string \<Rightarrow> string list" where
  "split_on sep [] = [[]]"
| "split_on sep (c # cs) =
     (if c = sep then [] # split_on sep cs
      else (case split_on sep cs of [] \<Rightarrow> [[c]] | x # xs \<Rightarrow> (c # x) # xs))"

text \<open>
  \<^verbatim>\<open>os.path.join(a, *p)\<close> of \<^verbatim>\<open>posixpath\<close>: a component that starts with the separator
  replaces what came before it; otherwise it is appended, after a separator unless the
  path so far is empty or already ends with one.
\<close>

definition join2 :: "string \<Rightarrow> string \<Rightarrow> string" where
  "join2 path b =
     (if startswith b ''/'' then b
      else if path = [] \<or> endswith path ''/'' then path @ b
      else path @ ''/'' @ b)"

definition path_join :: "string \<Rightarrow> string list \<Rightarrow> string" where
  "path_join a p = foldl join2 a p"

text \<open>Decimal rendering of an integer, as an f-string does it.\<close>

definition digit_char :: "nat \<Rightarrow> char" where
  "digit_char d = ''0123456789'' ! d"

function str_nat :: "nat \<Rightarrow> string" where
  "str_nat n = (if n < 10 then [digit_char n] else str_nat (n div 10) @ [digit_char (n mod 10)])"
  by pat_completeness auto
termination
  by (relation "measure id") auto

declare str_nat.simps [simp del]

definition str_int :: "int \<Rightarrow> string" where
  "str_int i = (if i < 0 then CHR ''-'' # str_nat (nat (- i)) else str_nat (nat i))"

subsection \<open>Filesystem operations\<close>

text \<open>
  A path names a node by its components: those of the working directory first unless the
  path is absolute, empty components and \<^verbatim>\<open>.\<close> dropped. The component \<^verbatim>\<open>..\<close> is not
  interpreted; it names no node. A lookup that meets a regular file, or no entry, before
  the path is used up finds nothing.
\<close>

definition components :: "string list \<Rightarrow> string \<Rightarrow> string list" where
  "components wd p =
     filter (\<lambda>c. c \<noteq> [] \<and> c \<noteq> ''.'')
       ((if startswith p ''/'' then [] else wd) @ split_on CHR ''/'' p)"

fun lookup :: "node \<Rightarrow> string list \<Rightarrow> node option" where
  "lookup n [] = Some n"
| "lookup (File t bs) (c # cs) = None"
| "lookup (Dir t es) (c # cs) =
     (case map_of es c of None \<Rightarrow> None | Some ch \<Rightarrow> lookup ch cs)"

definition resolve :: "filesystem \<Rightarrow> string \<Rightarrow> node option" where
  "resolve f p = (if p = [] then None else lookup (root f) (components (cwd f) p))"

definition path_exists :: "filesystem \<Rightarrow> string \<Rightarrow> bool" where
  "path_exists f p = (resolve f p \<noteq> None)"

definition isfile :: "filesystem \<Rightarrow> string \<Rightarrow> bool" where
  "isfile f p = (case resolve f p of Some (File _ _) \<Rightarrow> True | _ \<Rightarrow> False)"

definition isdir :: "filesystem \<Rightarrow> string \<Rightarrow> bool" where
  "isdir f p = (case resolve f p of Some (Dir _ _) \<Rightarrow> True | _ \<Rightarrow> False)"

definition listdir :: "filesystem \<Rightarrow> string \<Rightarrow> exn + string list" where
  "listdir f p =
     (case resolve f p of
        None \<Rightarrow> Inl (Exn FileNotFoundError p)
      | Some (File _ _) \<Rightarrow> Inl (Exn NotADirectoryError p)
      | Some (Dir _ es) \<Rightarrow> Inr (map fst es))"

definition getmtime :: "filesystem \<Rightarrow> string \<Rightarrow> exn + int" where
  "getmtime f p =
     (case resolve f p of
        None \<Rightarrow> Inl (Exn FileNotFoundError p)
      | Some n \<Rightarrow> Inr (node_mtime n))"

definition read_file :: "filesystem \<Rightarrow> string \<Rightarrow> exn + byte list" where
  "read_file f p =
     (case resolve f p of
        None \<Rightarrow> Inl (Exn FileNotFoundError p)
      | Some (Dir _ _) \<Rightarrow> Inl (Exn IsADirectoryError p)
      | Some (File _ bs) \<Rightarrow> Inr bs)"

text \<open>Replacing the first entry of a name, or adding the entry at the end.\<close>

fun set_entry :: "'k \<Rightarrow> 'v \<Rightarrow> ('k \<times> 'v) list \<Rightarrow> ('k \<times> 'v) list" where
  "set_entry c n [] = [(c, n)]"
| "set_entry c n ((k, v) # es) = (if k = c then (c, n) # es else (k, v) # set_entry c n es)"

text \<open>
  Changing the node at a path. The function \<open>g\<close> is given what is there (nothing, for a
  new name) and answers with the node to put or with an error. A new name needs its
  parent to exist and to be a directory; the parent then lists the name last and takes
  the time \<open>now\<close>. Replacing an existing node leaves its parent as it is.
\<close>

fun modify ::
  "(node option \<Rightarrow> exn_kind + node) \<Rightarrow> int \<Rightarrow> node \<Rightarrow> string list \<Rightarrow> exn_kind + node" where
  "modify g now n [] = g (Some n)"
| "modify g now (File t bs) (c # cs) = Inl NotADirectoryError"
| "modify g now (Dir t es) (c # cs) =
     (case map_of es c of
        None \<Rightarrow>
          (if cs = []
           then (case g None of
                   Inl k \<Rightarrow> Inl k
                 | Inr new \<Rightarrow> Inr (Dir now (es @ [(c, new)])))
           else Inl FileNotFoundError)
      | Some ch \<Rightarrow>
          (case modify g now ch cs of
             Inl k \<Rightarrow> Inl k
           | Inr ch' \<Rightarrow> Inr (Dir t (set_entry c ch' es))))"

text \<open>
  \<^verbatim>\<open>open(p, 'wb')\<close> followed by the write: a directory cannot be opened for writing, a
  new file needs its parent directory, an existing file is replaced.
\<close>

definition write_file :: "string \<Rightarrow> byte list \<Rightarrow> world \<Rightarrow> exn + world" where
  "write_file p bs w =
     (if p = [] then Inl (Exn FileNotFoundError p)
      else
        (case modify
                (\<lambda>old. case old of
                         Some (Dir _ _) \<Rightarrow> Inl IsADirectoryError
                       | _ \<Rightarrow> Inr (File (clock w) bs))
                (clock w) (root (fs w)) (components (cwd (fs w)) p) of
           Inl k \<Rightarrow> Inl (Exn k p)
         | Inr r \<Rightarrow> Inr (w\<lparr>fs := (fs w)\<lparr>root := r\<rparr>\<rparr>)))"

text \<open>
  \<^verbatim>\<open>os.makedirs(p, exist_ok=True)\<close>, walking down from the root: an existing directory
  is entered, a missing one is created (its parent lists it last and takes the time
  \<open>now\<close>), a regular file on the way raises \<^verbatim>\<open>NotADirectoryError\<close>, a regular file at
  the path itself \<^verbatim>\<open>FileExistsError\<close>.
\<close>

fun mkdirs :: "int \<Rightarrow> node \<Rightarrow> string list \<Rightarrow> exn_kind + node" where
  "mkdirs now (File t bs) [] = Inl FileExistsError"
| "mkdirs now (Dir t es) [] = Inr (Dir t es)"
| "mkdirs now (File t bs) (c # cs) = Inl NotADirectoryError"
| "mkdirs now (Dir t es) (c # cs) =
     (case map_of es c of
        None \<Rightarrow>
          (case mkdirs now (Dir now []) cs of
             Inl k \<Rightarrow> Inl k
           | Inr ch \<Rightarrow> Inr (Dir now (es @ [(c, ch)])))
      | Some ch \<Rightarrow>
          (case mkdirs now ch cs of
             Inl k \<Rightarrow> Inl k
           | Inr ch' \<Rightarrow> Inr (Dir t (set_entry c ch' es))))"

definition makedirs :: "string \<Rightarrow> world \<Rightarrow> exn + world" where
  "makedirs p w =
     (if p = [] then Inl (Exn FileNotFoundError p)
      else
        (case mkdirs (clock w) (root (fs w)) (components (cwd (fs w)) p) of
           Inl k \<Rightarrow> Inl (Exn k p)
         | Inr r \<Rightarrow> Inr (w\<lparr>fs := (fs w)\<lparr>root := r\<rparr>\<rparr>)))"



section \<open>ClientApp\<close>

record 'm ClientApp =
  base_dir :: string
  filename :: string
  output_dir :: string
  model_path :: string
  model :: "'m option"

text \<open>
  The \<^verbatim>\<open>with\<close> statement of \<^verbatim>\<open>_load_model\<close>. Its context manager is the value of
  \<^verbatim>\<open>add_safe_globals([Model])\<close>. That function of \<^verbatim>\<open>torch.serialization\<close> registers
  the classes and returns \<^verbatim>\<open>None\<close> (the context manager of the library is
  \<^verbatim>\<open>safe_globals\<close>), and entering a \<^verbatim>\<open>with\<close> statement on \<^verbatim>\<open>None\<close> raises
  \<^verbatim>\<open>TypeError\<close> (\<^verbatim>\<open>AttributeError\<close> before Python 3.11).
\<close>

definition add_safe_globals :: "string list \<Rightarrow> unit option" where
  "add_safe_globals safe_globals = None"

definition with_enter :: "unit option \<Rightarrow> exn + unit" where
  "with_enter cm =
     (case cm of
        None \<Rightarrow>
          Inl (Exn TypeError
                 (CHR 0x27 #
                  ''NoneType' object does not support the context manager protocol''))
      | Some _ \<Rightarrow> Inr ())"

text \<open>
  \<^verbatim>\<open>ClientApp._load_model\<close>: a missing weights file raises; whatever the \<^verbatim>\<open>with\<close>
  statement or \<^verbatim>\<open>torch.load\<close> inside it raises is printed and the method returns
  \<^verbatim>\<open>None\<close>.
\<close>

definition load_model :: "'m env \<Rightarrow> string \<Rightarrow> world \<Rightarrow> (exn + 'm option) \<times> world" where
  "load_model e mpath w =
     (if \<not> path_exists (fs w) mpath
      then (Inl (Exn FileNotFoundError (''Model file not found: '' @ mpath)), w)
      else (case with_enter (add_safe_globals [''Model'']) of
              Inl ex \<Rightarrow> (Inr None, print (''Failed to load model: '' @ str_exn ex) w)
            | Inr _ \<Rightarrow>
                (case torch_load e mpath (fs w) of
                   Inr m \<Rightarrow> (Inr (Some m), w\<lparr>loads := Suc (loads w)\<rparr>)
                 | Inl ex \<Rightarrow> (Inr None, print (''Failed to load model: '' @ str_exn ex) w))))"

text \<open>\<^verbatim>\<open>ClientApp._ensure_directories\<close>.\<close>

definition ensure_directories :: "string \<Rightarrow> string \<Rightarrow> world \<Rightarrow> (exn + unit) \<times> world" where
  "ensure_directories out base w =
     (case makedirs out w of
        Inl ex \<Rightarrow> (Inl ex, w)
      | Inr w1 \<Rightarrow>
          (case makedirs (path_join base [''data'']) w1 of
             Inl ex \<Rightarrow> (Inl ex, w1)
           | Inr w2 \<Rightarrow> (Inr (), w2)))"

text \<open>\<^verbatim>\<open>ClientApp.__init__\<close>.\<close>

definition ClientApp_init :: "'m env \<Rightarrow> world \<Rightarrow> (exn + 'm ClientApp) \<times> world" where
  "ClientApp_init e w =
     (let base = file_dir e;
          out = path_join base [''yolov5'', ''runs'', ''detect''];
          mpath = path_join base [''yolov5'', ''my_model.pt'']
      in case load_model e mpath w of
           (Inl ex, w1) \<Rightarrow> (Inl ex, w1)
         | (Inr m, w1) \<Rightarrow>
             (case ensure_directories out base w1 of
                (Inl ex, w2) \<Rightarrow> (Inl ex, w2)
              | (Inr _, w2) \<Rightarrow>
                  (Inr \<lparr>base_dir = base, filename = ''inputImage.jpg'', output_dir = out,
                        model_path = mpath, model = m\<rparr>, w2)))"

text \<open>
  \<^verbatim>\<open>ClientApp.run_yolo_detection\<close>: the argument list, the command string it is
  joined into, and the call of \<^verbatim>\<open>os.system\<close> inside a handler that prints whatever is
  raised there, the \<^verbatim>\<open>RuntimeError\<close> for a non-zero status included.
\<close>

definition yolo_cmd :: "'m ClientApp \<Rightarrow> string \<Rightarrow> string list" where
  "yolo_cmd cl image_path =
     [''python'', path_join (base_dir cl) [''yolov5'', ''detect.py''],
      ''--weights'', model_path cl,
      ''--img'', ''416'',
      ''--conf'', ''0.5'',
      ''--source'', image_path,
      ''--project'', output_dir cl,
      ''--name'', ''exp'']"

definition yolo_cmd_str :: "'m ClientApp \<Rightarrow> string \<Rightarrow> string" where
  "yolo_cmd_str cl image_path = str_join '' '' (yolo_cmd cl image_path)"

definition run_yolo_detection :: "'m env \<Rightarrow> 'm ClientApp \<Rightarrow> string \<Rightarrow> world \<Rightarrow> world" where
  "run_yolo_detection e cl image_path w =
     (let c = yolo_cmd_str cl image_path;
          (r, f) = os_system e c (fs w);
          w1 = w\<lparr>fs := (fs w)\<lparr>root := f\<rparr>, cmds := cmds w @ [c]\<rparr>
      in case r of
           Inl ex \<Rightarrow> print (''Error running YOLO detection: '' @ str_exn ex) w1
         | Inr exit_code \<Rightarrow>
             if exit_code \<noteq> 0
             then print (''Error running YOLO detection: '' @
                         str_exn (Exn RuntimeError
                           (''YOLO detection failed with code '' @ str_int exit_code))) w1
             else w1)"

section \<open>ImageCodec\<close>

text \<open>
  Modelled from the spec: \<^verbatim>\<open>decodeImage\<close> and \<^verbatim>\<open>encodeImageIntoBase64\<close> are imported
  from \<^verbatim>\<open>signLanguage.utils.main_utils\<close>, which is not among the sources. The spec gives
  \<^verbatim>\<open>decode(text) -> bytes written to path\<close> and \<^verbatim>\<open>encode(path) -> text\<close>, a pure
  transport bridge with no change of content that fails with \<^verbatim>\<open>EncodingError\<close> on
  malformed text, and names the text encoding Base64. The codec below is Base64 with the
  standard alphabet and padding; text is malformed when it is not the canonical encoding
  of any byte sequence. Where the helper puts the file it is asked to write is not
  told; the path is the parameter \<open>decode_target\<close> of the environment.
\<close>

definition b64_alphabet :: string where
  "b64_alphabet = ''ABCDEFGHIJKLMNOPQRSTUVWXYZabcdefghijklmnopqrstuvwxyz0123456789+/''"

definition b64_char :: "nat \<Rightarrow> char" where
  "b64_char n = b64_alphabet ! n"

fun index_of :: "'a \<Rightarrow> 'a list \<Rightarrow> nat option" where
  "index_of c [] = None"
| "index_of c (x # xs) = (if c = x then Some 0 else map_option Suc (index_of c xs))"

definition b64_val :: "char \<Rightarrow> nat option" where
  "b64_val c = index_of c b64_alphabet"

text \<open>Three bytes become four characters; one or two trailing bytes are padded.\<close>

fun enc :: "nat list \<Rightarrow> string" where
  "enc [] = []"
| "enc [a] = [b64_char (a div 4), b64_char ((a mod 4) * 16), CHR ''='', CHR ''='']"
| "enc [a, b] =
     [b64_char (a div 4), b64_char ((a mod 4) * 16 + b div 16), b64_char ((b mod 16) * 4),
      CHR ''='']"
| "enc (a # b # c # rest) =
     [b64_char (a div 4), b64_char ((a mod 4) * 16 + b div 16),
      b64_char ((b mod 16) * 4 + c div 64), b64_char (c mod 64)] @ enc rest"

text \<open>The last group of four characters, when it ends with padding.\<close>

definition dec_last :: "char \<Rightarrow> char \<Rightarrow> char \<Rightarrow> nat list option" where
  "dec_last c0 c1 c2 =
     (if c2 = CHR ''='' then
        (case (b64_val c0, b64_val c1) of
           (Some s0, Some s1) \<Rightarrow>
             if s1 mod 16 = 0 then Some [s0 * 4 + s1 div 16] else None
         | _ \<Rightarrow> None)
      else
        (case (b64_val c0, b64_val c1, b64_val c2) of
           (Some s0, Some s1, Some s2) \<Rightarrow>
             if s2 mod 4 = 0 then Some [s0 * 4 + s1 div 16, (s1 mod 16) * 16 + s2 div 4]
             else None
         | _ \<Rightarrow> None))"

fun dec :: "string \<Rightarrow> nat list option" where
  "dec [] = Some []"
| "dec (c0 # c1 # c2 # c3 # rest) =
     (if rest = [] \<and> c3 = CHR ''='' then dec_last c0 c1 c2
      else
        (case (b64_val c0, b64_val c1, b64_val c2, b64_val c3) of
           (Some s0, Some s1, Some s2, Some s3) \<Rightarrow>
             map_option
               ((@) [s0 * 4 + s1 div 16, (s1 mod 16) * 16 + s2 div 4, (s2 mod 4) * 64 + s3])
               (dec rest)
         | _ \<Rightarrow> None))"
| "dec _ = None"

definition b64encode :: "byte list \<Rightarrow> string" where
  "b64encode bs = enc (map unat bs)"

definition b64decode :: "string \<Rightarrow> byte list option" where
  "b64decode t = map_option (map of_nat) (dec t)"

definition decodeImage :: "string \<Rightarrow> string \<Rightarrow> world \<Rightarrow> exn + world" where
  "decodeImage imgstring path w =
     (case b64decode imgstring of
        None \<Rightarrow> Inl (Exn EncodingError ''malformed encoded image'')
      | Some bs \<Rightarrow> write_file path bs w)"

definition encodeImageIntoBase64 :: "filesystem \<Rightarrow> string \<Rightarrow> exn + string" where
  "encodeImageIntoBase64 f path =
     (case read_file f path of Inl ex \<Rightarrow> Inl ex | Inr bs \<Rightarrow> Inr (b64encode bs))"

section \<open>Requests and responses\<close>

text \<open>
  A JSON value as \<^verbatim>\<open>request.json\<close> delivers it; an object is the list of its items.
  The request carries whether its content type announces JSON (\<^verbatim>\<open>request.is_json\<close>)
  and the parsed body, \<open>None\<close> when the body does not parse, in which case reading
  \<^verbatim>\<open>request.json\<close> raises.
\<close>

datatype json =
    JNull | JBool bool | JNum int | JStr string | JArr "json list"
  | JObj "(string \<times> json) list"

record request =
  is_json :: bool
  body :: "json option"

datatype content = Json "(string \<times> string) list" | Text string

record response =
  status :: nat
  content :: content

definition jsonify :: "(string \<times> string) list \<Rightarrow> nat \<Rightarrow> response" where
  "jsonify kv code = \<lparr>status = code, content = Json kv\<rparr>"

definition request_json :: "request \<Rightarrow> exn + json" where
  "request_json req =
     (case body req of
        None \<Rightarrow> Inl (Exn BadRequest ''400 Bad Request: Failed to decode JSON object'')
      | Some j \<Rightarrow> Inr j)"

text \<open>\<^verbatim>\<open>.get(key)\<close>: only a dict has the method; a missing key gives \<^verbatim>\<open>None\<close>.\<close>

definition json_get :: "json \<Rightarrow> string \<Rightarrow> exn + json" where
  "json_get j k =
     (case j of
        JObj kv \<Rightarrow> Inr (case map_of kv k of None \<Rightarrow> JNull | Some v \<Rightarrow> v)
      | _ \<Rightarrow> Inl (Exn AttributeError ''object has no attribute 'get' ''))"

text \<open>Python's truth value of a JSON value, as \<^verbatim>\<open>not image\<close> tests it (the variable \<^verbatim>\<open>image\<close> is \<open>img\<close> below).\<close>

fun truthy :: "json \<Rightarrow> bool" where
  "truthy JNull = False"
| "truthy (JBool b) = b"
| "truthy (JNum n) = (n \<noteq> 0)"
| "truthy (JStr s) = (s \<noteq> [])"
| "truthy (JArr xs) = (xs \<noteq> [])"
| "truthy (JObj kv) = (kv \<noteq> [])"

text \<open>
  A step of a route's body raises, returns a response at once, or goes on with a value.
\<close>

datatype 'a step = Raised exn | Returned response | Next 'a

section \<open>The routes\<close>

text \<open>\<^verbatim>\<open>warmup\<close>: no handler around the construction.\<close>

definition warmup :: "'m env \<Rightarrow> world \<Rightarrow> (exn + response) \<times> world" where
  "warmup e w =
     (case ClientApp_init e w of
        (Inl ex, w1) \<Rightarrow> (Inl ex, w1)
      | (Inr clApp, w1) \<Rightarrow> (Inr (jsonify [(''status'', ''Model loaded'')] 200), w1))"

text \<open>
  \<^verbatim>\<open>predictRoute\<close>, first part of the \<^verbatim>\<open>try\<close> block: the checks of the request, the
  decoding of the image into the file named by \<^verbatim>\<open>clApp.filename\<close>, and the path given
  to the detector. A value that is not text makes the decoder raise.
\<close>

definition image_path_of :: "'m env \<Rightarrow> 'm ClientApp \<Rightarrow> string" where
  "image_path_of e clApp = path_join (file_dir e) [''data'', filename clApp]"

definition predict_input ::
  "'m env \<Rightarrow> 'm ClientApp \<Rightarrow> request \<Rightarrow> world \<Rightarrow> string step \<times> world" where
  "predict_input e clApp req w =
     (if \<not> is_json req then (Returned (jsonify [(''error'', ''Request must be JSON'')] 400), w)
      else case request_json req of
        Inl ex \<Rightarrow> (Raised ex, w)
      | Inr j \<Rightarrow>
          (case json_get j ''image'' of
             Inl ex \<Rightarrow> (Raised ex, w)
           | Inr img \<Rightarrow>
               if \<not> truthy img
               then (Returned (jsonify [(''error'', ''No image provided'')] 400), w)
               else
                 (case img of
                    JStr imgstring \<Rightarrow>
                      (case decodeImage imgstring (decode_target e (filename clApp)) w of
                         Inl ex \<Rightarrow> (Raised ex, w)
                       | Inr w1 \<Rightarrow> (Next (image_path_of e clApp), w1))
                  | _ \<Rightarrow> (Raised (Exn TypeError ''argument should be a string''), w))))"

text \<open>
  \<^verbatim>\<open>max(xs, key=f)\<close>: the keys are computed in order, an element replaces the best so
  far only when its key is strictly greater, so the first maximal element wins; an
  exception of the key function propagates.
\<close>

fun max_from :: "('a \<Rightarrow> exn + int) \<Rightarrow> 'a \<Rightarrow> int \<Rightarrow> 'a list \<Rightarrow> exn + 'a" where
  "max_from key best bk [] = Inr best"
| "max_from key best bk (x # xs) =
     (case key x of
        Inl ex \<Rightarrow> Inl ex
      | Inr k \<Rightarrow> if bk < k then max_from key x k xs else max_from key best bk xs)"

definition py_max :: "('a \<Rightarrow> exn + int) \<Rightarrow> 'a list \<Rightarrow> exn + 'a" where
  "py_max key xs =
     (case xs of
        [] \<Rightarrow> Inl (Exn ValueError ''max() arg is an empty sequence'')
      | x # rest \<Rightarrow> (case key x of Inl ex \<Rightarrow> Inl ex | Inr k \<Rightarrow> max_from key x k rest))"

text \<open>
  \<^verbatim>\<open>predictRoute\<close>, after the detection: the directories under the output directory
  whose names start with \<^verbatim>\<open>exp\<close>, the latest of them by modification time, and the
  result image expected inside it.
\<close>

definition exp_folders :: "filesystem \<Rightarrow> string \<Rightarrow> exn + string list" where
  "exp_folders f out =
     (case listdir f out of
        Inl ex \<Rightarrow> Inl ex
      | Inr names \<Rightarrow>
          Inr (filter (\<lambda>d. startswith d ''exp'' \<and> isdir f (path_join out [d])) names))"

definition latest_exp_folder :: "filesystem \<Rightarrow> string \<Rightarrow> string list \<Rightarrow> exn + string" where
  "latest_exp_folder f out folders = py_max (\<lambda>x. getmtime f (path_join out [x])) folders"

definition latest_image :: "'m ClientApp \<Rightarrow> filesystem \<Rightarrow> string step" where
  "latest_image clApp f =
     (case exp_folders f (output_dir clApp) of
        Inl ex \<Rightarrow> Raised ex
      | Inr folders \<Rightarrow>
          if folders = []
          then Returned (jsonify [(''error'', ''No experiment folders found'')] 500)
          else
            (case latest_exp_folder f (output_dir clApp) folders of
               Inl ex \<Rightarrow> Raised ex
             | Inr latest \<Rightarrow>
                 (let latest_image_path = path_join (output_dir clApp) [latest, ''image0.jpg'']
                  in if \<not> path_exists f latest_image_path
                     then Returned (jsonify [(''error'', ''Predicted image not found'')] 500)
                     else Next latest_image_path)))"

definition predict_output :: "'m ClientApp \<Rightarrow> filesystem \<Rightarrow> exn + response" where
  "predict_output clApp f =
     (case latest_image clApp f of
        Raised ex \<Rightarrow> Inl ex
      | Returned r \<Rightarrow> Inr r
      | Next latest_image_path \<Rightarrow>
          (case encodeImageIntoBase64 f latest_image_path of
             Inl ex \<Rightarrow> Inl ex
           | Inr encoded_string \<Rightarrow> Inr (jsonify [(''image'', encoded_string)] 200)))"

text \<open>The \<^verbatim>\<open>try\<close> block of \<^verbatim>\<open>predictRoute\<close> as a whole.\<close>

definition predict_try ::
  "'m env \<Rightarrow> 'm ClientApp \<Rightarrow> request \<Rightarrow> world \<Rightarrow> (exn + response) \<times> world" where
  "predict_try e clApp req w =
     (case predict_input e clApp req w of
        (Raised ex, w1) \<Rightarrow> (Inl ex, w1)
      | (Returned r, w1) \<Rightarrow> (Inr r, w1)
      | (Next image_path, w1) \<Rightarrow>
          (let w2 = run_yolo_detection e clApp image_path w1
           in (predict_output clApp (fs w2), w2)))"

text \<open>
  \<^verbatim>\<open>predictRoute\<close>: the construction of \<^verbatim>\<open>ClientApp\<close> stands before the \<^verbatim>\<open>try\<close>,
  so what it raises leaves the route; whatever the block raises is printed and answered
  with status 500.
\<close>

definition predictRoute :: "'m env \<Rightarrow> request \<Rightarrow> world \<Rightarrow> (exn + response) \<times> world" where
  "predictRoute e req w =
     (case ClientApp_init e w of
        (Inl ex, w1) \<Rightarrow> (Inl ex, w1)
      | (Inr clApp, w1) \<Rightarrow>
          (case predict_try e clApp req w1 of
             (Inl ex, w2) \<Rightarrow> (Inr (jsonify [(''error'', str_exn ex)] 500), print (str_exn ex) w2)
           | (Inr r, w2) \<Rightarrow> (Inr r, w2)))"

text \<open>
  \<^verbatim>\<open>predictLive\<close>: here the construction is inside the \<^verbatim>\<open>try\<close>. The handler for
  \<^verbatim>\<open>ValueError\<close> comes first.
\<close>

definition predictLive :: "'m env \<Rightarrow> world \<Rightarrow> (exn + response) \<times> world" where
  "predictLive e w =
     (case ClientApp_init e w of
        (Inl ex, w1) \<Rightarrow>
          (if kind ex = ValueError
           then (Inr \<lparr>status = 200, content = Text ''Value not found inside  json data''\<rparr>,
                 print (str_exn ex) w1)
           else (Inr (jsonify [(''error'', str_exn ex)] 500), print (str_exn ex) w1))
      | (Inr clApp, w1) \<Rightarrow>
          (Inr \<lparr>status = 200, content = Text ''Camera starting!!''\<rparr>,
           run_yolo_detection e clApp ''0'' w1))"

section \<open>The resolver of the specification\<close>

text \<open>
  The specification's \<^verbatim>\<open>resolve(output_root, run_name)\<close>, in its words: a direct lookup
  of \<^verbatim>\<open>output_root/run_name/<fixed-artifact-name>\<close>. It is stated here to be compared
  with \<open>latest_image\<close>, which is what the route does.
\<close>

definition resolve_direct :: "string \<Rightarrow> string \<Rightarrow> string" where
  "resolve_direct output_root run_name = path_join output_root [run_name, ''image0.jpg'']"

section \<open>A concrete deployment\<close>

text \<open>
  The application lives in \<^verbatim>\<open>/app\<close>, which is also the working directory, and the
  decoder keeps its files in \<^verbatim>\<open>./data\<close>. A run directory holds one result image of one
  byte. The deployment is given by the bytes of its weights file and by the entries of
  the output directory; in the usual one an earlier detection run has left the directory
  \<^verbatim>\<open>exp\<close> at tick 5 with the byte 77. Were \<^verbatim>\<open>torch.load\<close> reached, it would yield the
  size of the weights file.
\<close>

definition demo_torch_load :: "string \<Rightarrow> filesystem \<Rightarrow> exn + nat" where
  "demo_torch_load p f =
     (case resolve f p of
        Some (File _ bs) \<Rightarrow> Inr (length bs)
      | _ \<Rightarrow> Inl (Exn OtherError ''not a file''))"

definition demo_env :: "(string \<Rightarrow> filesystem \<Rightarrow> (exn + int) \<times> node) \<Rightarrow> nat env" where
  "demo_env sys =
     \<lparr>file_dir = ''/app'', torch_load = demo_torch_load, os_system = sys,
      decode_target = (\<lambda>n. ''./data/'' @ n)\<rparr>"

definition run_dir :: "int \<Rightarrow> byte \<Rightarrow> node" where
  "run_dir t b = Dir t [(''image0.jpg'', File t [b])]"

definition demo_fs_runs :: "byte list \<Rightarrow> (string \<times> node) list \<Rightarrow> filesystem" where
  "demo_fs_runs weights runs =
     \<lparr>root =
        Dir 1 [(''app'',
                Dir 1 [(''yolov5'',
                        Dir 1 [(''my_model.pt'', File 1 weights),
                               (''runs'', Dir 1 [(''detect'', Dir 5 runs)])]),
                       (''data'', Dir 1 [])])],
      cwd = [''app'']\<rparr>"

definition demo_fs :: "byte list \<Rightarrow> filesystem" where
  "demo_fs weights = demo_fs_runs weights [(''exp'', run_dir 5 77)]"

definition empty_fs :: filesystem where
  "empty_fs = \<lparr>root = Dir 0 [], cwd = []\<rparr>"


definition demo_world :: "filesystem \<Rightarrow> world" where
  "demo_world f = \<lparr>fs = f, clock = 5, loads = 0, cmds = [], stdout = []\<rparr>"

definition demo_app :: "nat ClientApp" where
  "demo_app =
     \<lparr>base_dir = ''/app'', filename = ''inputImage.jpg'',
      output_dir = ''/app/yolov5/runs/detect'', model_path = ''/app/yolov5/my_model.pt'',
      model = None\<rparr>"

text \<open>
  Detectors of the example. The first leaves the tree alone and reports the given
  status. The second reports 0 and leaves the output directory with the given entries,
  in the given order, stamped with the given time. The third is a detector whose
  argument parser counts what the shell makes of the command: split at the spaces, the
  command must have the fourteen words of the argument list, or the process ends with
  exit code 2, which \<^verbatim>\<open>os.system\<close> reports as 512.
\<close>

definition detect_nothing :: "int \<Rightarrow> string \<Rightarrow> filesystem \<Rightarrow> (exn + int) \<times> node" where
  "detect_nothing code c f = (Inr code, root f)"

definition detect_dirs ::
  "int \<Rightarrow> (string \<times> node) list \<Rightarrow> string \<Rightarrow> filesystem \<Rightarrow> (exn + int) \<times> node" where
  "detect_dirs t runs c f =
     (case modify (\<lambda>old. Inr (Dir t runs)) t (root f) [''app'', ''yolov5'', ''runs'', ''detect''] of
        Inl k \<Rightarrow> (Inr 256, root f)
      | Inr r \<Rightarrow> (Inr 0, r))"

definition detect_argparse :: "string \<Rightarrow> filesystem \<Rightarrow> (exn + int) \<times> node" where
  "detect_argparse c f =
     (if length (split_on CHR '' '' c) = 14 then (Inr 0, root f) else (Inr 512, root f))"

definition image_request :: "string \<Rightarrow> string \<Rightarrow> request" where
  "image_request rid imgstring =
     \<lparr>is_json = True, body = Some (JObj [(''id'', JStr rid), (''image'', JStr imgstring)])\<rparr>"

section \<open>The tree\<close>

lemma map_of_set_entry: "map_of (set_entry c n es) k = (if k = c then Some n else map_of es k)"
  by (induction c n es rule: set_entry.induct) auto

lemma lookup_modify:
  "modify g now n cs = Inr n' \<Longrightarrow> \<exists>new. g (lookup n cs) = Inr new \<and> lookup n' cs = Some new"
proof (induction g now n cs arbitrary: n' rule: modify.induct)
  case (1 g now n)
  then show ?case by simp
next
  case (2 g now t bs c cs)
  then show ?case by simp
next
  case (3 g now t es c cs)
  show ?case
  proof (cases "map_of es c")
    case None
    with "3.prems" obtain new where e: "cs = []" and g: "g None = Inr new"
      and n': "n' = Dir now (es @ [(c, new)])"
      by (auto split: if_splits sum.splits)
    from None have "map_of (es @ [(c, new)]) c = Some new"
      by (simp add: map_add_def)
    with None e g n' show ?thesis by simp
  next
    case (Some ch)
    with "3.prems" obtain ch' where m: "modify g now ch cs = Inr ch'"
      and n': "n' = Dir t (set_entry c ch' es)"
      by (auto split: sum.splits)
    from "3.IH"[OF Some m] obtain new where
      "g (lookup ch cs) = Inr new" "lookup ch' cs = Some new" by blast
    with Some n' show ?thesis by (simp add: map_of_set_entry)
  qed
qed

lemma read_after_write:
  assumes "write_file p bs w = Inr w'"
  shows "read_file (fs w') p = Inr bs"
proof -
  let ?g = "\<lambda>old. case old of Some (Dir _ _) \<Rightarrow> Inl IsADirectoryError
                             | _ \<Rightarrow> Inr (File (clock w) bs)"
  from assms obtain r where p: "p \<noteq> []"
    and m: "modify ?g (clock w) (root (fs w)) (components (cwd (fs w)) p) = Inr r"
    and w': "w' = w\<lparr>fs := (fs w)\<lparr>root := r\<rparr>\<rparr>"
    by (auto simp: write_file_def split: if_splits sum.splits)
  from lookup_modify[OF m] obtain new where
    g: "?g (lookup (root (fs w)) (components (cwd (fs w)) p)) = Inr new"
    and l: "lookup r (components (cwd (fs w)) p) = Some new" by blast
  from g have "new = File (clock w) bs"
    by (auto split: option.splits node.splits)
  with l p w' show ?thesis by (simp add: read_file_def resolve_def)
qed






section \<open>Model loading across requests\<close>

text \<open>
  The load never gets as far as \<^verbatim>\<open>torch.load\<close>: the method returns no model and the
  count of loads stays where it was, through the construction and through the routes.
\<close>

lemma load_model_never_loads:
  assumes "load_model e mpath w = (r, w')"
  shows "loads w' = loads w" and "r = Inr m \<Longrightarrow> m = None"
  using assms
  by (auto simp: load_model_def add_safe_globals_def with_enter_def print_def split: if_splits)

lemma makedirs_loads: "makedirs p w = Inr w' \<Longrightarrow> loads w' = loads w"
  by (auto simp: makedirs_def split: if_splits sum.splits)

lemma ensure_directories_loads:
  "ensure_directories out base w = (r, w') \<Longrightarrow> loads w' = loads w"
proof (cases "makedirs out w")
  case (Inl ex)
  then show "ensure_directories out base w = (r, w') \<Longrightarrow> loads w' = loads w"
    by (simp add: ensure_directories_def)
next
  case (Inr w1)
  assume a: "ensure_directories out base w = (r, w')"
  from Inr have l1: "loads w1 = loads w" by (rule makedirs_loads)
  show "loads w' = loads w"
  proof (cases "makedirs (path_join base [''data'']) w1")
    case (Inl ex)
    with Inr a l1 show ?thesis by (simp add: ensure_directories_def)
  next
    case (Inr w2)
    then have "loads w2 = loads w1" by (rule makedirs_loads)
    with Inr \<open>makedirs out w = Inr w1\<close> a l1 show ?thesis
      by (simp add: ensure_directories_def)
  qed
qed

lemma ClientApp_init_loads: "loads (snd (ClientApp_init e w)) = loads w"
proof -
  let ?mp = "path_join (file_dir e) [''yolov5'', ''my_model.pt'']"
  let ?out = "path_join (file_dir e) [''yolov5'', ''runs'', ''detect'']"
  obtain r w0 where lm: "load_model e ?mp w = (r, w0)" by (cases "load_model e ?mp w")
  have l0: "loads w0 = loads w" using load_model_never_loads(1)[OF lm] .
  obtain r' w1 where ed: "ensure_directories ?out (file_dir e) w0 = (r', w1)"
    by (cases "ensure_directories ?out (file_dir e) w0")
  have l1: "loads w1 = loads w0" using ensure_directories_loads[OF ed] .
  show ?thesis
    using lm ed l0 l1
    by (cases r; cases r') (simp_all add: ClientApp_init_def Let_def)
qed

lemma ClientApp_init_model:
  assumes "ClientApp_init e w = (Inr clApp, w1)"
  shows "model clApp = None"
proof -
  let ?mp = "path_join (file_dir e) [''yolov5'', ''my_model.pt'']"
  obtain r w0 where lm: "load_model e ?mp w = (r, w0)" by (cases "load_model e ?mp w")
  with assms obtain m where "r = Inr m" "model clApp = m"
    by (auto simp: ClientApp_init_def Let_def split: sum.splits prod.splits)
  with load_model_never_loads(2)[OF lm] show ?thesis by simp
qed

lemma warmup_loads: "loads (snd (warmup e w)) = loads w"
  using ClientApp_init_loads[of e w]
  by (auto simp: warmup_def split: prod.splits sum.splits)

text \<open>
  C2. The claim: over every sequence of requests the weights are loaded from disk at
  most once; the first call performs the load and every later call returns the same
  model held in memory. The routes build a fresh \<^verbatim>\<open>ClientApp\<close> on every call, each
  construction attempts the load, and the attempt fails at the \<^verbatim>\<open>with\<close> statement
  before \<^verbatim>\<open>torch.load\<close> is reached. After a warmup followed by a predict call on the
  example deployment, whose weights file is in place, the failure has been printed once
  per request, the instance built after the warmup holds no model, and nothing has been
  loaded: no call performs the load and no call returns a model.
\<close>

theorem C2_load_attempted_per_request_never_held:
  "stdout (snd (warmup (demo_env (detect_nothing 0)) (demo_world (demo_fs [1, 2, 3]))))
     = [''Failed to load model: 'NoneType' object does not support the context manager protocol'']
   \<and> map_sum id model
        (fst (ClientApp_init (demo_env (detect_nothing 0))
               (snd (warmup (demo_env (detect_nothing 0)) (demo_world (demo_fs [1, 2, 3]))))))
     = Inr None
   \<and> stdout (snd (predictRoute (demo_env (detect_nothing 0)) (image_request ''r1'' ''YQ=='')
                 (snd (warmup (demo_env (detect_nothing 0)) (demo_world (demo_fs [1, 2, 3]))))))
     = [''Failed to load model: 'NoneType' object does not support the context manager protocol'',
        ''Failed to load model: 'NoneType' object does not support the context manager protocol'']
   \<and> loads (snd (predictRoute (demo_env (detect_nothing 0)) (image_request ''r1'' ''YQ=='')
                 (snd (warmup (demo_env (detect_nothing 0)) (demo_world (demo_fs [1, 2, 3])))))) = 0"
  by code_simp

text \<open>
  C5. The claim: the status that warmup returns tells whether the model is loaded, and
  is never a success while no model is held. With the weights file in place the load
  attempt fails, the constructed \<^verbatim>\<open>ClientApp\<close> holds no model, and warmup still answers
  with status 200 and the text \<^verbatim>\<open>Model loaded\<close>. With no weights file at all the
  \<^verbatim>\<open>FileNotFoundError\<close> of the construction leaves warmup, which has no handler, instead
  of being returned as a status.
\<close>

theorem C5_warmup_reports_loaded_without_model:
  "map_sum id model (fst (ClientApp_init (demo_env (detect_nothing 0)) (demo_world (demo_fs []))))
     = Inr None
   \<and> fst (warmup (demo_env (detect_nothing 0)) (demo_world (demo_fs [])))
     = Inr (jsonify [(''status'', ''Model loaded'')] 200)
   \<and> fst (warmup (demo_env (detect_nothing 0)) (demo_world empty_fs))
     = Inl (Exn FileNotFoundError ''Model file not found: /app/yolov5/my_model.pt'')"
  by code_simp

section \<open>Failure of the detection process\<close>

text \<open>A non-zero status is printed and the method returns.\<close>

lemma run_yolo_detection_nonzero:
  assumes "os_system e (yolo_cmd_str clApp image_path) (fs w) = (Inr exit_code, f)"
    and "exit_code \<noteq> 0"
  shows "run_yolo_detection e clApp image_path w
         = print (''Error running YOLO detection: YOLO detection failed with code '' @ str_int exit_code)
             (w\<lparr>fs := (fs w)\<lparr>root := f\<rparr>, cmds := cmds w @ [yolo_cmd_str clApp image_path]\<rparr>)"
  using assms by (simp add: run_yolo_detection_def str_exn_def)

text \<open>
  C3. The claim: a non-zero status of the detection process reaches the caller as an
  error carrying that status, and no result resolution follows. In
  \<^verbatim>\<open>run_yolo_detection\<close> the \<^verbatim>\<open>RuntimeError\<close> is raised inside the \<^verbatim>\<open>try\<close> whose
  handler prints it: with status 256 the method returns after printing one line, and the
  predict route goes on to resolve and answers 200 with the image an earlier run left.
\<close>

theorem C3_failure_swallowed:
  "stdout (run_yolo_detection (demo_env (detect_nothing 256)) demo_app ''/app/data/inputImage.jpg''
             (demo_world (demo_fs [1, 2, 3])))
     = [''Error running YOLO detection: YOLO detection failed with code 256'']
   \<and> fst (predictRoute (demo_env (detect_nothing 256)) (image_request ''r1'' ''YQ=='')
            (demo_world (demo_fs [1, 2, 3])))
     = Inr (jsonify [(''image'', ''TQ=='')] 200)"
  by code_simp

section \<open>Validation of the predict request\<close>

text \<open>Once the construction has succeeded, the two checks of the request answer with status 400.\<close>

lemma predictRoute_rejects_non_json:
  assumes "ClientApp_init e w = (Inr clApp, w1)" "\<not> is_json req"
  shows "predictRoute e req w = (Inr (jsonify [(''error'', ''Request must be JSON'')] 400), w1)"
  using assms by (simp add: predictRoute_def predict_try_def predict_input_def)

lemma predictRoute_rejects_missing_image:
  assumes "ClientApp_init e w = (Inr clApp, w1)" "is_json req" "body req = Some (JObj kv)"
    and "map_of kv ''image'' = None"
  shows "predictRoute e req w = (Inr (jsonify [(''error'', ''No image provided'')] 400), w1)"
  using assms
  by (simp add: predictRoute_def predict_try_def predict_input_def request_json_def json_get_def)

text \<open>
  C8. The claim: a predict call with a missing or non-conforming body returns a
  validation failure and never ends in an unhandled failure. \<^verbatim>\<open>predictRoute\<close>
  constructs \<^verbatim>\<open>ClientApp\<close> before its \<^verbatim>\<open>try\<close>: with no weights file a request that is
  not JSON leaves the route with \<^verbatim>\<open>FileNotFoundError\<close>, while \<^verbatim>\<open>predictLive\<close>, which
  constructs inside its \<^verbatim>\<open>try\<close>, answers the same state with an error payload. And
  with the weights in place, a JSON body that is an array, so has no image field, is
  answered with the server status 500, not with the 400 of the two checks.
\<close>

theorem C8_construction_outside_handler:
  "fst (predictRoute (demo_env (detect_nothing 0)) \<lparr>is_json = False, body = None\<rparr>
          (demo_world empty_fs))
     = Inl (Exn FileNotFoundError ''Model file not found: /app/yolov5/my_model.pt'')
   \<and> fst (predictLive (demo_env (detect_nothing 0)) (demo_world empty_fs))
     = Inr (jsonify [(''error'', ''Model file not found: /app/yolov5/my_model.pt'')] 500)
   \<and> map_sum id status
         (fst (predictRoute (demo_env (detect_nothing 0)) \<lparr>is_json = True, body = Some (JArr [])\<rparr>
                 (demo_world (demo_fs [1, 2, 3]))))
     = Inr 500"
  by code_simp

section \<open>The codec is a bijection between bytes and canonical text\<close>

lemma index_of_SomeD: "index_of c xs = Some i \<Longrightarrow> i < length xs \<and> xs ! i = c"
proof (induction xs arbitrary: i)
  case Nil
  then show ?case by simp
next
  case (Cons x xs)
  then show ?case by (auto split: if_splits)
qed

lemma index_of_nth: "distinct xs \<Longrightarrow> i < length xs \<Longrightarrow> index_of (xs ! i) xs = Some i"
proof (induction xs arbitrary: i)
  case Nil
  then show ?case by simp
next
  case (Cons x xs)
  show ?case
  proof (cases i)
    case 0
    then show ?thesis by simp
  next
    case (Suc j)
    with Cons.prems have "xs ! j \<noteq> x" "j < length xs" "distinct xs" by auto
    with Cons.IH[of j] Suc show ?thesis by simp
  qed
qed

lemma b64_alphabet_length: "length b64_alphabet = 64"
  by (simp add: b64_alphabet_def)

lemma b64_alphabet_distinct: "distinct b64_alphabet"
  by (simp add: b64_alphabet_def)

lemma b64_alphabet_no_pad: "CHR ''='' \<notin> set b64_alphabet"
  by (simp add: b64_alphabet_def)

lemma b64_val_SomeD: "b64_val c = Some s \<Longrightarrow> s < 64 \<and> b64_char s = c"
  using index_of_SomeD[of c b64_alphabet s]
  by (simp add: b64_val_def b64_char_def b64_alphabet_length)

lemma b64_val_char: "s < 64 \<Longrightarrow> b64_val (b64_char s) = Some s"
  using index_of_nth[OF b64_alphabet_distinct, of s]
  by (simp add: b64_val_def b64_char_def b64_alphabet_length)

lemma b64_char_not_pad:
  assumes "s < 64"
  shows "b64_char s \<noteq> CHR ''=''"
proof -
  from assms have "b64_alphabet ! s \<in> set b64_alphabet"
    by (simp add: b64_alphabet_length)
  with b64_alphabet_no_pad show ?thesis
    unfolding b64_char_def by metis
qed

lemma div_pack: "r < b \<Longrightarrow> (a * b + r) div b = (a::nat)"
  by simp

lemma mod_pack: "r < b \<Longrightarrow> (a * b + r) mod b = (r::nat)"
  by simp

lemma sextets_of_bytes:
  fixes s0 s1 s2 s3 :: nat
  assumes "s1 < 64" "s2 < 64" "s3 < 64"
  shows "(s0 * 4 + s1 div 16) div 4 = s0"
    and "((s0 * 4 + s1 div 16) mod 4) * 16 + ((s1 mod 16) * 16 + s2 div 4) div 16 = s1"
    and "(((s1 mod 16) * 16 + s2 div 4) mod 16) * 4 + ((s2 mod 4) * 64 + s3) div 64 = s2"
    and "((s2 mod 4) * 64 + s3) mod 64 = s3"
proof -
  have q: "s1 div 16 < 4" and t: "s2 div 4 < 16"
    using assms by (simp_all add: less_mult_imp_div_less)
  show "(s0 * 4 + s1 div 16) div 4 = s0"
    using q by (rule div_pack)
  have "(s0 * 4 + s1 div 16) mod 4 = s1 div 16"
    using q by (rule mod_pack)
  moreover have "((s1 mod 16) * 16 + s2 div 4) div 16 = s1 mod 16"
    using t by (rule div_pack)
  ultimately show "((s0 * 4 + s1 div 16) mod 4) * 16 + ((s1 mod 16) * 16 + s2 div 4) div 16 = s1"
    by simp
  have "((s1 mod 16) * 16 + s2 div 4) mod 16 = s2 div 4"
    using t by (rule mod_pack)
  moreover have "((s2 mod 4) * 64 + s3) div 64 = s2 mod 4"
    using assms(3) by (rule div_pack)
  ultimately show "(((s1 mod 16) * 16 + s2 div 4) mod 16) * 4 + ((s2 mod 4) * 64 + s3) div 64 = s2"
    by simp
  show "((s2 mod 4) * 64 + s3) mod 64 = s3"
    using assms(3) by (rule mod_pack)
qed

lemma enc_dec_last:
  assumes "dec_last c0 c1 c2 = Some ns"
  shows "enc ns = [c0, c1, c2, CHR ''='']"
proof (cases "c2 = CHR ''=''")
  case True
  with assms obtain s0 s1 where
    v: "b64_val c0 = Some s0" "b64_val c1 = Some s1"
    and z: "s1 mod 16 = 0" and ns: "ns = [s0 * 4 + s1 div 16]"
    by (auto simp: dec_last_def split: option.splits if_splits)
  from v have b: "s1 < 64" and c: "b64_char s0 = c0" "b64_char s1 = c1"
    using b64_val_SomeD by blast+
  have q: "s1 div 16 < 4"
    using b by (simp add: less_mult_imp_div_less)
  have "(s0 * 4 + s1 div 16) div 4 = s0"
    using q by (rule div_pack)
  moreover have "(s0 * 4 + s1 div 16) mod 4 = s1 div 16"
    using q by (rule mod_pack)
  moreover have "s1 div 16 * 16 = s1"
    using z div_mult_mod_eq[of s1 16] by simp
  ultimately show ?thesis
    using c True by (simp add: ns)
next
  case False
  with assms obtain s0 s1 s2 where
    v: "b64_val c0 = Some s0" "b64_val c1 = Some s1" "b64_val c2 = Some s2"
    and z: "s2 mod 4 = 0"
    and ns: "ns = [s0 * 4 + s1 div 16, (s1 mod 16) * 16 + s2 div 4]"
    by (auto simp: dec_last_def split: option.splits if_splits)
  from v have b: "s1 < 64" "s2 < 64"
    and c: "b64_char s0 = c0" "b64_char s1 = c1" "b64_char s2 = c2"
    using b64_val_SomeD by blast+
  have q: "s1 div 16 < 4" and t: "s2 div 4 < 16"
    using b by (simp_all add: less_mult_imp_div_less)
  have "(s0 * 4 + s1 div 16) div 4 = s0"
    using q by (rule div_pack)
  moreover have "(s0 * 4 + s1 div 16) mod 4 = s1 div 16"
    using q by (rule mod_pack)
  moreover have "((s1 mod 16) * 16 + s2 div 4) div 16 = s1 mod 16"
    using t by (rule div_pack)
  moreover have "((s1 mod 16) * 16 + s2 div 4) mod 16 = s2 div 4"
    using t by (rule mod_pack)
  moreover have "s2 div 4 * 4 = s2"
    using z div_mult_mod_eq[of s2 4] by simp
  ultimately show ?thesis
    using c by (simp add: ns)
qed

lemma enc_group:
  assumes "s1 < 64" "s2 < 64" "s3 < 64"
  shows "enc ((s0 * 4 + s1 div 16) # ((s1 mod 16) * 16 + s2 div 4) # ((s2 mod 4) * 64 + s3) # ms)
         = [b64_char s0, b64_char s1, b64_char s2, b64_char s3] @ enc ms"
  by (simp only: enc.simps sextets_of_bytes[OF assms])

lemma enc_dec: "dec t = Some ns \<Longrightarrow> enc ns = t"
proof (induction t arbitrary: ns rule: dec.induct)
  case 1
  then show ?case by simp
next
  case (2 c0 c1 c2 c3 rest)
  show ?case
  proof (cases "rest = [] \<and> c3 = CHR ''=''")
    case True
    with "2.prems" show ?thesis by (simp add: enc_dec_last)
  next
    case False
    with "2.prems" obtain s0 s1 s2 s3 ms where
      v: "b64_val c0 = Some s0" "b64_val c1 = Some s1" "b64_val c2 = Some s2" "b64_val c3 = Some s3"
      and r: "dec rest = Some ms"
      and ns: "ns = [s0 * 4 + s1 div 16, (s1 mod 16) * 16 + s2 div 4, (s2 mod 4) * 64 + s3] @ ms"
      by (auto split: option.splits)
    from v have b: "s1 < 64" "s2 < 64" "s3 < 64"
      and c: "b64_char s0 = c0" "b64_char s1 = c1" "b64_char s2 = c2" "b64_char s3 = c3"
      using b64_val_SomeD by blast+
    have "enc ms = rest"
      using "2.IH" False v r by simp
    then show ?thesis
      using c by (simp add: ns enc_group[OF b] del: enc.simps)
  qed
qed simp_all

lemma dec_last_bytes:
  assumes "dec_last c0 c1 c2 = Some ns"
  shows "\<forall>n\<in>set ns. n < 256"
proof -
  have bound: "s0 * 4 + s1 div 16 < 256 \<and> (s1 mod 16) * 16 + s2 div 4 < 256"
    if "s0 < 64" "s1 < 64" "s2 < 64" for s0 s1 s2 :: nat
  proof -
    have "s1 div 16 < 4" "s2 div 4 < 16" "s1 mod 16 < 16"
      using that by (simp_all add: less_mult_imp_div_less)
    with that show ?thesis by linarith
  qed
  show ?thesis
  proof (cases "c2 = CHR ''=''")
    case True
    with assms obtain s0 s1 where
      v: "b64_val c0 = Some s0" "b64_val c1 = Some s1" and ns: "ns = [s0 * 4 + s1 div 16]"
      by (auto simp: dec_last_def split: option.splits if_splits)
    from v have "s0 < 64" "s1 < 64" using b64_val_SomeD by blast+
    with bound[of s0 s1 0] show ?thesis by (simp add: ns)
  next
    case False
    with assms obtain s0 s1 s2 where
      v: "b64_val c0 = Some s0" "b64_val c1 = Some s1" "b64_val c2 = Some s2"
      and ns: "ns = [s0 * 4 + s1 div 16, (s1 mod 16) * 16 + s2 div 4]"
      by (auto simp: dec_last_def split: option.splits if_splits)
    from v have "s0 < 64" "s1 < 64" "s2 < 64" using b64_val_SomeD by blast+
    with bound[of s0 s1 s2] show ?thesis by (simp add: ns)
  qed
qed

lemma dec_bytes: "dec t = Some ns \<Longrightarrow> \<forall>n\<in>set ns. n < 256"
proof (induction t arbitrary: ns rule: dec.induct)
  case 1
  then show ?case by simp
next
  case (2 c0 c1 c2 c3 rest)
  show ?case
  proof (cases "rest = [] \<and> c3 = CHR ''=''")
    case True
    with "2.prems" show ?thesis by (simp add: dec_last_bytes)
  next
    case False
    with "2.prems" obtain s0 s1 s2 s3 ms where
      v: "b64_val c0 = Some s0" "b64_val c1 = Some s1" "b64_val c2 = Some s2" "b64_val c3 = Some s3"
      and r: "dec rest = Some ms"
      and ns: "ns = [s0 * 4 + s1 div 16, (s1 mod 16) * 16 + s2 div 4, (s2 mod 4) * 64 + s3] @ ms"
      by (auto split: option.splits)
    from v have b: "s0 < 64" "s1 < 64" "s2 < 64" "s3 < 64"
      using b64_val_SomeD by blast+
    have "s1 div 16 < 4" "s2 div 4 < 16" "s1 mod 16 < 16" "s2 mod 4 < 4"
      using b by (simp_all add: less_mult_imp_div_less)
    with b have "s0 * 4 + s1 div 16 < 256" "(s1 mod 16) * 16 + s2 div 4 < 256"
      "(s2 mod 4) * 64 + s3 < 256"
      by linarith+
    moreover have "\<forall>n\<in>set ms. n < 256"
      using "2.IH" False v r by simp
    ultimately show ?thesis by (simp add: ns)
  qed
qed simp_all

lemma bytes_of_sextets:
  fixes a b c :: nat
  assumes "b < 256" "c < 256"
  shows "((a mod 4) * 16 + b div 16) div 16 = a mod 4"
    and "((a mod 4) * 16 + b div 16) mod 16 = b div 16"
    and "((b mod 16) * 4 + c div 64) div 4 = b mod 16"
    and "((b mod 16) * 4 + c div 64) mod 4 = c div 64"
proof -
  have q: "b div 16 < 16" and t: "c div 64 < 4"
    using assms by (simp_all add: less_mult_imp_div_less)
  show "((a mod 4) * 16 + b div 16) div 16 = a mod 4" using q by (rule div_pack)
  show "((a mod 4) * 16 + b div 16) mod 16 = b div 16" using q by (rule mod_pack)
  show "((b mod 16) * 4 + c div 64) div 4 = b mod 16" using t by (rule div_pack)
  show "((b mod 16) * 4 + c div 64) mod 4 = c div 64" using t by (rule mod_pack)
qed

lemma sextet_bounds:
  fixes a b c :: nat
  assumes "a < 256" "b < 256" "c < 256"
  shows "a div 4 < 64" "(a mod 4) * 16 + b div 16 < 64" "(b mod 16) * 4 + c div 64 < 64"
    "c mod 64 < 64" "(a mod 4) * 16 < 64" "(b mod 16) * 4 < 64"
proof -
  have "a div 4 < 64" "b div 16 < 16" "c div 64 < 4" "a mod 4 < 4" "b mod 16 < 16"
    using assms by (simp_all add: less_mult_imp_div_less)
  then show "a div 4 < 64" "(a mod 4) * 16 + b div 16 < 64" "(b mod 16) * 4 + c div 64 < 64"
    "(a mod 4) * 16 < 64" "(b mod 16) * 4 < 64"
    by linarith+
  show "c mod 64 < 64" by simp
qed

lemma dec_group:
  assumes "s0 < 64" "s1 < 64" "s2 < 64" "s3 < 64"
  shows "dec (b64_char s0 # b64_char s1 # b64_char s2 # b64_char s3 # r)
         = map_option
             ((@) [s0 * 4 + s1 div 16, (s1 mod 16) * 16 + s2 div 4, (s2 mod 4) * 64 + s3])
             (dec r)"
  using assms by (simp add: b64_val_char b64_char_not_pad)

lemma group_bytes:
  fixes a b c :: nat
  assumes "b < 256" "c < 256"
  shows "a div 4 * 4 + ((a mod 4) * 16 + b div 16) div 16 = a"
    and "(((a mod 4) * 16 + b div 16) mod 16) * 16 + ((b mod 16) * 4 + c div 64) div 4 = b"
    and "(((b mod 16) * 4 + c div 64) mod 4) * 64 + c mod 64 = c"
  by (simp_all only: bytes_of_sextets[OF assms] div_mult_mod_eq)

lemma dec_enc: "\<forall>n\<in>set ns. n < 256 \<Longrightarrow> dec (enc ns) = Some ns"
proof (induction ns rule: enc.induct)
  case 1
  show ?case by simp
next
  case (2 a)
  then have a: "a < 256" by simp
  have s: "a div 4 < 64" "(a mod 4) * 16 < 64"
    using sextet_bounds[OF a a a] by simp_all
  have "(a mod 4) * 16 mod 16 = 0" by simp
  moreover have "a div 4 * 4 + (a mod 4) * 16 div 16 = a" by simp
  ultimately show ?case
    using s by (simp add: dec_last_def b64_val_char)
next
  case (3 a b)
  then have a: "a < 256" and b: "b < 256" by simp_all
  have s: "a div 4 < 64" "(a mod 4) * 16 + b div 16 < 64" "(b mod 16) * 4 < 64"
    using sextet_bounds[OF a b b] by simp_all
  have z: "(b mod 16) * 4 mod 4 = 0" "(b mod 16) * 4 div 4 = b mod 16" by simp_all
  have "a div 4 * 4 + ((a mod 4) * 16 + b div 16) div 16 = a"
    using group_bytes(1)[OF b b] .
  moreover have "(((a mod 4) * 16 + b div 16) mod 16) * 16 + b mod 16 = b"
    by (simp only: bytes_of_sextets[OF b b] div_mult_mod_eq)
  ultimately show ?case
    using s z by (simp add: dec_last_def b64_val_char b64_char_not_pad)
next
  case (4 a b c rest)
  then have a: "a < 256" and b: "b < 256" and c: "c < 256"
    and r: "\<forall>n\<in>set rest. n < 256" by simp_all
  have s: "a div 4 < 64" "(a mod 4) * 16 + b div 16 < 64" "(b mod 16) * 4 + c div 64 < 64"
    "c mod 64 < 64"
    using sextet_bounds[OF a b c] by simp_all
  have "dec (enc (a # b # c # rest))
        = map_option
            ((@) [a div 4 * 4 + ((a mod 4) * 16 + b div 16) div 16,
                  (((a mod 4) * 16 + b div 16) mod 16) * 16 + ((b mod 16) * 4 + c div 64) div 4,
                  (((b mod 16) * 4 + c div 64) mod 4) * 64 + c mod 64])
            (dec (enc rest))"
    by (simp only: enc.simps append.simps dec_group[OF s])
  also have "\<dots> = map_option ((@) [a, b, c]) (dec (enc rest))"
    by (simp only: group_bytes[OF b c])
  also have "\<dots> = Some (a # b # c # rest)"
    using "4.IH" r by simp
  finally show ?case .
qed

lemma unat_of_nat_byte: "n < 256 \<Longrightarrow> unat (of_nat n :: byte) = n"
  by (simp add: unat_of_nat)

lemma b64encode_b64decode: "b64decode t = Some bs \<Longrightarrow> b64encode bs = t"
proof -
  assume "b64decode t = Some bs"
  then obtain ns where d: "dec t = Some ns" and bs: "bs = map of_nat ns"
    by (auto simp: b64decode_def)
  have "map unat bs = ns"
    using dec_bytes[OF d] by (simp add: bs unat_of_nat_byte map_idI)
  then show ?thesis
    using enc_dec[OF d] by (simp add: b64encode_def)
qed

text \<open>Every byte sequence has an encoding that decodes to it, so valid texts abound.\<close>

lemma b64decode_b64encode: "b64decode (b64encode bs) = Some bs"
proof -
  have "\<forall>n\<in>set (map unat bs). n < 256"
  proof
    fix n assume "n \<in> set (map unat bs)"
    then obtain b :: byte where "n = unat b" by auto
    then show "n < 256"
      using unsigned_less[of b] by simp
  qed
  then have "dec (enc (map unat bs)) = Some (map unat bs)"
    by (rule dec_enc)
  then show ?thesis
    by (simp add: b64decode_def b64encode_def map_idI)
qed

text \<open>
  C9. For every valid encoded image \<open>x\<close>, that is every text that \<^verbatim>\<open>decodeImage\<close> accepts
  and writes to a file, encoding that file gives \<open>x\<close> back character for character: the
  codec transports the bytes and changes nothing.
\<close>

theorem C9_encode_decode_roundtrip:
  "decodeImage x p w = Inr w' \<Longrightarrow> encodeImageIntoBase64 (fs w') p = Inr x"
proof -
  assume a: "decodeImage x p w = Inr w'"
  then obtain bs where d: "b64decode x = Some bs" and wr: "write_file p bs w = Inr w'"
    by (auto simp: decodeImage_def split: option.splits)
  from read_after_write[OF wr] show ?thesis
    using b64encode_b64decode[OF d] by (simp add: encodeImageIntoBase64_def)
qed

theorem C9_encode_decode_roundtrip_witness:
  "\<exists>w'. decodeImage ''TWFuTQ=='' ''./data/inputImage.jpg'' (demo_world (demo_fs [1, 2, 3])) = Inr w'
        \<and> encodeImageIntoBase64 (fs w') ''./data/inputImage.jpg'' = Inr ''TWFuTQ==''"
proof -
  have "\<not> isl (decodeImage ''TWFuTQ=='' ''./data/inputImage.jpg'' (demo_world (demo_fs [1, 2, 3])))"
    by code_simp
  then obtain w' where
    h: "decodeImage ''TWFuTQ=='' ''./data/inputImage.jpg'' (demo_world (demo_fs [1, 2, 3])) = Inr w'"
    by (cases "decodeImage ''TWFuTQ=='' ''./data/inputImage.jpg'' (demo_world (demo_fs [1, 2, 3]))")
       auto
  from C9_encode_decode_roundtrip[OF h] h show ?thesis by blast
qed

section \<open>The latest directory\<close>

lemma max_from_first_max:
  assumes "max_from key best bk xs = Inr d"
    and "key best = Inr bk"
    and "\<forall>x\<in>set pre. \<exists>k. key x = Inr k \<and> k < bk"
    and "\<forall>x\<in>set post. \<exists>k. key x = Inr k \<and> k \<le> bk"
  shows "\<exists>pre' post' kd. pre @ best # post @ xs = pre' @ d # post' \<and> key d = Inr kd
           \<and> (\<forall>x\<in>set pre'. \<exists>k. key x = Inr k \<and> k < kd)
           \<and> (\<forall>x\<in>set post'. \<exists>k. key x = Inr k \<and> k \<le> kd)"
  using assms
proof (induction xs arbitrary: best bk pre post)
  case Nil
  then have "d = best" by simp
  with Nil show ?case by auto
next
  case (Cons x xs)
  from Cons.prems(1) obtain k where k: "key x = Inr k"
    by (auto split: sum.splits)
  show ?case
  proof (cases "bk < k")
    case True
    with Cons.prems(1) k have m: "max_from key x k xs = Inr d" by simp
    have p: "\<forall>y\<in>set (pre @ best # post). \<exists>k'. key y = Inr k' \<and> k' < k"
      using Cons.prems(2,3,4) True by fastforce
    have q: "\<forall>y\<in>set ([]::'a list). \<exists>k'. key y = Inr k' \<and> k' \<le> k" by simp
    from Cons.IH[OF m k p q] show ?thesis by simp
  next
    case False
    with Cons.prems(1) k have m: "max_from key best bk xs = Inr d" by simp
    have q: "\<forall>y\<in>set (post @ [x]). \<exists>k'. key y = Inr k' \<and> k' \<le> bk"
      using Cons.prems(4) k False by auto
    from Cons.IH[OF m Cons.prems(2) Cons.prems(3) q] show ?thesis by simp
  qed
qed

lemma py_max_first_max:
  assumes "py_max key ys = Inr d"
  shows "\<exists>pre post kd. ys = pre @ d # post \<and> key d = Inr kd
           \<and> (\<forall>x\<in>set pre. \<exists>k. key x = Inr k \<and> k < kd)
           \<and> (\<forall>x\<in>set post. \<exists>k. key x = Inr k \<and> k \<le> kd)"
proof -
  from assms obtain y rest k where ys: "ys = y # rest" and k: "key y = Inr k"
    and m: "max_from key y k rest = Inr d"
    by (auto simp: py_max_def split: list.splits sum.splits)
  from max_from_first_max[OF m k, of "[]" "[]"] show ?thesis
    by (simp add: ys)
qed

lemma max_from_total:
  "\<forall>x\<in>set xs. \<exists>k. key x = Inr k \<Longrightarrow> \<exists>d. max_from key best bk xs = Inr d"
  by (induction xs arbitrary: best bk) auto

lemma py_max_total:
  "ys \<noteq> [] \<Longrightarrow> \<forall>x\<in>set ys. \<exists>k. key x = Inr k \<Longrightarrow> \<exists>d. py_max key ys = Inr d"
  by (cases ys) (auto simp: py_max_def max_from_total)

lemma isdir_getmtime: "isdir f p \<Longrightarrow> \<exists>k. getmtime f p = Inr k"
  by (auto simp: isdir_def getmtime_def split: option.splits)

lemma exp_folders_isdir:
  "exp_folders f out = Inr folders \<Longrightarrow> \<forall>d\<in>set folders. startswith d ''exp'' \<and> isdir f (path_join out [d])"
  by (auto simp: exp_folders_def split: sum.splits)

lemma latest_exp_folder_total:
  assumes "exp_folders f out = Inr folders" "folders \<noteq> []"
  shows "\<exists>d. latest_exp_folder f out folders = Inr d"
  unfolding latest_exp_folder_def
  using assms exp_folders_isdir[OF assms(1)] isdir_getmtime
  by (intro py_max_total) auto

section \<open>Artifact resolution\<close>

text \<open>
  C1, as the code has it. The route knows no correlation id. The image it serves is
  \<^verbatim>\<open>image0.jpg\<close> in the latest directory, by modification time, among the directories
  of the output directory whose names start with \<^verbatim>\<open>exp\<close>; when several share the
  greatest modification time it is the one listed first, so every directory listed before
  the chosen one is strictly older and none listed after it is newer.
\<close>

theorem C1_latest_by_mtime_first_listed:
  assumes "latest_image clApp f = Next p"
  shows "\<exists>folders pre d post t.
           exp_folders f (output_dir clApp) = Inr folders
         \<and> folders = pre @ d # post
         \<and> p = path_join (output_dir clApp) [d, ''image0.jpg'']
         \<and> getmtime f (path_join (output_dir clApp) [d]) = Inr t
         \<and> (\<forall>x\<in>set pre. \<exists>k. getmtime f (path_join (output_dir clApp) [x]) = Inr k \<and> k < t)
         \<and> (\<forall>x\<in>set post. \<exists>k. getmtime f (path_join (output_dir clApp) [x]) = Inr k \<and> k \<le> t)"
proof -
  from assms obtain folders d where
    fo: "exp_folders f (output_dir clApp) = Inr folders"
    and la: "latest_exp_folder f (output_dir clApp) folders = Inr d"
    and p: "p = path_join (output_dir clApp) [d, ''image0.jpg'']"
    by (auto simp: latest_image_def Let_def split: sum.splits if_splits)
  from py_max_first_max[OF la[unfolded latest_exp_folder_def]]
  show ?thesis using fo p by blast
qed

text \<open>
  Three run directories: \<^verbatim>\<open>exp\<close> is older and listed first, \<^verbatim>\<open>exp2\<close> and \<^verbatim>\<open>exp3\<close>
  share the latest tick, and \<^verbatim>\<open>exp2\<close>, listed before \<^verbatim>\<open>exp3\<close>, is chosen. Two run
  directories of the same tick: the one listed first is chosen, in either order.
\<close>

theorem C1_latest_by_mtime_first_listed_witness:
  "latest_image demo_app (demo_fs_runs [1, 2, 3] [(''exp'', run_dir 3 77), (''exp2'', run_dir 5 97), (''exp3'', run_dir 5 98)])
     = Next ''/app/yolov5/runs/detect/exp2/image0.jpg''
   \<and> latest_image demo_app (demo_fs_runs [1, 2, 3] [(''exp'', run_dir 5 77), (''exp2'', run_dir 5 97)])
     = Next ''/app/yolov5/runs/detect/exp/image0.jpg''
   \<and> latest_image demo_app (demo_fs_runs [1, 2, 3] [(''exp2'', run_dir 5 97), (''exp'', run_dir 5 77)])
     = Next ''/app/yolov5/runs/detect/exp2/image0.jpg''
   \<and> (\<exists>t. [''exp'', ''exp2'', ''exp3''] = [''exp''] @ ''exp2'' # [''exp3'']
          \<and> exp_folders (demo_fs_runs [1, 2, 3] [(''exp'', run_dir 3 77), (''exp2'', run_dir 5 97), (''exp3'', run_dir 5 98)]) (output_dir demo_app)
              = Inr [''exp'', ''exp2'', ''exp3'']
          \<and> getmtime (demo_fs_runs [1, 2, 3] [(''exp'', run_dir 3 77), (''exp2'', run_dir 5 97), (''exp3'', run_dir 5 98)]) (path_join (output_dir demo_app) [''exp2'']) = Inr t
          \<and> (\<forall>x\<in>set [''exp'']. \<exists>k. getmtime (demo_fs_runs [1, 2, 3] [(''exp'', run_dir 3 77), (''exp2'', run_dir 5 97), (''exp3'', run_dir 5 98)])
                                      (path_join (output_dir demo_app) [x]) = Inr k \<and> k < t)
          \<and> (\<forall>x\<in>set [''exp3'']. \<exists>k. getmtime (demo_fs_runs [1, 2, 3] [(''exp'', run_dir 3 77), (''exp2'', run_dir 5 97), (''exp3'', run_dir 5 98)])
                                      (path_join (output_dir demo_app) [x]) = Inr k \<and> k \<le> t))
   \<and> (\<exists>t. exp_folders (demo_fs_runs [1, 2, 3] [(''exp'', run_dir 5 77), (''exp2'', run_dir 5 97)]) (output_dir demo_app) = Inr [''exp'', ''exp2'']
          \<and> getmtime (demo_fs_runs [1, 2, 3] [(''exp'', run_dir 5 77), (''exp2'', run_dir 5 97)]) (path_join (output_dir demo_app) [''exp'']) = Inr t
          \<and> (\<forall>x\<in>set [''exp2'']. \<exists>k. getmtime (demo_fs_runs [1, 2, 3] [(''exp'', run_dir 5 77), (''exp2'', run_dir 5 97)])
                                      (path_join (output_dir demo_app) [x]) = Inr k \<and> k \<le> t))"
proof -
  let ?f3 = "demo_fs_runs [1, 2, 3] [(''exp'', run_dir 3 77), (''exp2'', run_dir 5 97), (''exp3'', run_dir 5 98)]"
  let ?f2 = "demo_fs_runs [1, 2, 3] [(''exp'', run_dir 5 77), (''exp2'', run_dir 5 97)]"
  let ?out = "output_dir demo_app"
  have h3: "latest_image demo_app ?f3 = Next ''/app/yolov5/runs/detect/exp2/image0.jpg''"
    by code_simp
  have h2: "latest_image demo_app ?f2 = Next ''/app/yolov5/runs/detect/exp/image0.jpg''"
    by code_simp
  have h2': "latest_image demo_app (demo_fs_runs [1, 2, 3] [(''exp2'', run_dir 5 97), (''exp'', run_dir 5 77)])
             = Next ''/app/yolov5/runs/detect/exp2/image0.jpg''"
    by code_simp
  have e3: "exp_folders ?f3 ?out = Inr [''exp'', ''exp2'', ''exp3'']" by code_simp
  have e2: "exp_folders ?f2 ?out = Inr [''exp'', ''exp2'']" by code_simp
  have j: "path_join ?out [d, ''image0.jpg''] = ?out @ ''/'' @ d @ ''/image0.jpg''"
    if "d \<in> {''exp'', ''exp2'', ''exp3''}" for d
    using that by (auto simp: demo_app_def path_join_def join2_def startswith_def endswith_def)
  from C1_latest_by_mtime_first_listed[OF h3] e3 obtain pre d post t where
    s3: "[''exp'', ''exp2'', ''exp3''] = pre @ d # post"
    and p3: "''/app/yolov5/runs/detect/exp2/image0.jpg'' = path_join ?out [d, ''image0.jpg'']"
    and t3: "getmtime ?f3 (path_join ?out [d]) = Inr t"
    and pre3: "\<forall>x\<in>set pre. \<exists>k. getmtime ?f3 (path_join ?out [x]) = Inr k \<and> k < t"
    and post3: "\<forall>x\<in>set post. \<exists>k. getmtime ?f3 (path_join ?out [x]) = Inr k \<and> k \<le> t"
    by auto
  from s3 have "d \<in> {''exp'', ''exp2'', ''exp3''}"
    by (metis in_set_conv_decomp list.set_intros(1) set_ConsD empty_iff insert_iff list.set(2) empty_set)
  from j[OF this] p3 have d3: "d = ''exp2''"
    by (simp add: demo_app_def)
  with s3 have "pre = [''exp''] \<and> post = [''exp3'']"
    by (auto simp: append_eq_Cons_conv Cons_eq_append_conv)
  with d3 t3 pre3 post3 e3 have A: "\<exists>t. [''exp'', ''exp2'', ''exp3''] = [''exp''] @ ''exp2'' # [''exp3'']
          \<and> exp_folders ?f3 ?out = Inr [''exp'', ''exp2'', ''exp3'']
          \<and> getmtime ?f3 (path_join ?out [''exp2'']) = Inr t
          \<and> (\<forall>x\<in>set [''exp'']. \<exists>k. getmtime ?f3 (path_join ?out [x]) = Inr k \<and> k < t)
          \<and> (\<forall>x\<in>set [''exp3'']. \<exists>k. getmtime ?f3 (path_join ?out [x]) = Inr k \<and> k \<le> t)"
    by auto
  from C1_latest_by_mtime_first_listed[OF h2] e2 obtain pre d post t where
    s2: "[''exp'', ''exp2''] = pre @ d # post"
    and p2: "''/app/yolov5/runs/detect/exp/image0.jpg'' = path_join ?out [d, ''image0.jpg'']"
    and t2: "getmtime ?f2 (path_join ?out [d]) = Inr t"
    and post2: "\<forall>x\<in>set post. \<exists>k. getmtime ?f2 (path_join ?out [x]) = Inr k \<and> k \<le> t"
    by auto
  from s2 have "d \<in> {''exp'', ''exp2'', ''exp3''}"
    by (auto simp: append_eq_Cons_conv Cons_eq_append_conv)
  from j[OF this] p2 have d2: "d = ''exp''"
    by (simp add: demo_app_def)
  with s2 have "post = [''exp2'']"
    by (auto simp: append_eq_Cons_conv Cons_eq_append_conv)
  with d2 t2 post2 e2 have B: "\<exists>t. exp_folders ?f2 ?out = Inr [''exp'', ''exp2'']
          \<and> getmtime ?f2 (path_join ?out [''exp'']) = Inr t
          \<and> (\<forall>x\<in>set [''exp2'']. \<exists>k. getmtime ?f2 (path_join ?out [x]) = Inr k \<and> k \<le> t)"
    by auto
  from h3 h2 h2' A B show ?thesis by blast
qed

text \<open>
  C1, as stated, fails. The claim: resolution is the direct lookup of
  \<^verbatim>\<open>output_root/run_name/image0.jpg\<close> and never returns another request's artifact, also
  when two runs finish in the same tick, any tie being broken independently of the
  iteration order. Request \<^verbatim>\<open>r2\<close> runs a detection that writes \<^verbatim>\<open>exp2/image0.jpg\<close>
  (byte 97) in the same tick 5 in which the earlier \<^verbatim>\<open>exp\<close> (byte 77) was written.
  Listed after \<^verbatim>\<open>exp\<close>, the run's own result is passed over and the response carries
  the earlier image; listed before it, the response carries the run's image.
\<close>

theorem C1_counterexample:
  "fst (predictRoute (demo_env (detect_dirs 5 [(''exp'', run_dir 5 77), (''exp2'', run_dir 5 97)])) (image_request ''r2'' ''YQ=='')
          (demo_world (demo_fs [1, 2, 3])))
     = Inr (jsonify [(''image'', ''TQ=='')] 200)
   \<and> fst (predictRoute (demo_env (detect_dirs 5 [(''exp2'', run_dir 5 97), (''exp'', run_dir 5 77)])) (image_request ''r2'' ''YQ=='')
          (demo_world (demo_fs [1, 2, 3])))
     = Inr (jsonify [(''image'', ''YQ=='')] 200)
   \<and> latest_image demo_app
        (fs (snd (predictRoute (demo_env (detect_dirs 5 [(''exp'', run_dir 5 77), (''exp2'', run_dir 5 97)])) (image_request ''r2'' ''YQ=='')
                    (demo_world (demo_fs [1, 2, 3])))))
     \<noteq> Next (resolve_direct ''/app/yolov5/runs/detect'' ''exp2'')
   \<and> read_file
        (fs (snd (predictRoute (demo_env (detect_dirs 5 [(''exp'', run_dir 5 77), (''exp2'', run_dir 5 97)])) (image_request ''r2'' ''YQ=='')
                    (demo_world (demo_fs [1, 2, 3])))))
        (resolve_direct ''/app/yolov5/runs/detect'' ''exp2'') = Inr [97]
   \<and> b64encode [97] = ''YQ=='' \<and> b64encode [77] = ''TQ==''"
  by code_simp

section \<open>The detection command\<close>

text \<open>
  C4, as stated, fails. The claim: the fields reach the detection routine as discrete
  elements of an argument vector, never joined into one command string. For the source
  \<^verbatim>\<open>a b\<close> what \<^verbatim>\<open>os.system\<close> receives is one string, and it is the same string that
  the different vector with the two elements \<^verbatim>\<open>a\<close> and \<^verbatim>\<open>b\<close> joins into: the
  boundary of the source field is lost. Split at its spaces the string has fifteen words,
  so the detector that counts its arguments refuses it, which it does not for the
  source \<^verbatim>\<open>a\<close>.
\<close>

theorem C4_counterexample:
  "cmds (run_yolo_detection (demo_env detect_argparse) demo_app ''a b'' (demo_world (demo_fs [1, 2, 3])))
     = [''python /app/yolov5/detect.py --weights /app/yolov5/my_model.pt --img 416 --conf 0.5 --source a b --project /app/yolov5/runs/detect --name exp'']
   \<and> yolo_cmd_str demo_app ''a b''
     = str_join '' '' [''python'', ''/app/yolov5/detect.py'', ''--weights'', ''/app/yolov5/my_model.pt'',
         ''--img'', ''416'', ''--conf'', ''0.5'', ''--source'', ''a'', ''b'',
         ''--project'', ''/app/yolov5/runs/detect'', ''--name'', ''exp'']
   \<and> yolo_cmd demo_app ''a b''
     \<noteq> [''python'', ''/app/yolov5/detect.py'', ''--weights'', ''/app/yolov5/my_model.pt'',
         ''--img'', ''416'', ''--conf'', ''0.5'', ''--source'', ''a'', ''b'',
         ''--project'', ''/app/yolov5/runs/detect'', ''--name'', ''exp'']
   \<and> split_on CHR '' '' (yolo_cmd_str demo_app ''a b'')
     = [''python'', ''/app/yolov5/detect.py'', ''--weights'', ''/app/yolov5/my_model.pt'',
         ''--img'', ''416'', ''--conf'', ''0.5'', ''--source'', ''a'', ''b'',
         ''--project'', ''/app/yolov5/runs/detect'', ''--name'', ''exp'']
   \<and> stdout (run_yolo_detection (demo_env detect_argparse) demo_app ''a b''
               (demo_world (demo_fs [1, 2, 3])))
     = [''Error running YOLO detection: YOLO detection failed with code 512'']
   \<and> stdout (run_yolo_detection (demo_env detect_argparse) demo_app ''a''
               (demo_world (demo_fs [1, 2, 3])))
     = []"
  by code_simp

text \<open>
  C4, as the code has it. For every instance and every source, \<^verbatim>\<open>os.system\<close> is
  called once, with a single string: the fixed fields joined by single spaces, with the
  source value embedded as it is, unquoted, between \<^verbatim>\<open>--source\<close> and \<^verbatim>\<open>--project\<close>.
  The tree after the method is the one that call leaves, the string is the one command
  recorded, and what is printed is decided by what that call returns or raises.
\<close>

theorem C4_single_command_string:
  "fs (run_yolo_detection e clApp image_path w)
     = (fs w)\<lparr>root := snd (os_system e (str_join '' '' [''python'', path_join (base_dir clApp) [''yolov5'', ''detect.py''],
                          ''--weights'', model_path clApp, ''--img'', ''416'', ''--conf'', ''0.5'',
                          ''--source'']
          @ '' '' @ image_path @ '' ''
          @ str_join '' '' [''--project'', output_dir clApp, ''--name'', ''exp'']) (fs w))\<rparr>
   \<and> cmds (run_yolo_detection e clApp image_path w)
     = cmds w @ [(str_join '' '' [''python'', path_join (base_dir clApp) [''yolov5'', ''detect.py''],
                          ''--weights'', model_path clApp, ''--img'', ''416'', ''--conf'', ''0.5'',
                          ''--source'']
          @ '' '' @ image_path @ '' ''
          @ str_join '' '' [''--project'', output_dir clApp, ''--name'', ''exp''])]
   \<and> stdout (run_yolo_detection e clApp image_path w)
     = stdout w @
       (case fst (os_system e (str_join '' '' [''python'', path_join (base_dir clApp) [''yolov5'', ''detect.py''],
                          ''--weights'', model_path clApp, ''--img'', ''416'', ''--conf'', ''0.5'',
                          ''--source'']
          @ '' '' @ image_path @ '' ''
          @ str_join '' '' [''--project'', output_dir clApp, ''--name'', ''exp'']) (fs w)) of
          Inl ex \<Rightarrow> [''Error running YOLO detection: '' @ str_exn ex]
        | Inr exit_code \<Rightarrow>
            if exit_code = 0 then []
            else [''Error running YOLO detection: YOLO detection failed with code ''
                  @ str_int exit_code])"
proof -
  have s: "yolo_cmd_str clApp image_path = (str_join '' '' [''python'', path_join (base_dir clApp) [''yolov5'', ''detect.py''],
                          ''--weights'', model_path clApp, ''--img'', ''416'', ''--conf'', ''0.5'',
                          ''--source'']
          @ '' '' @ image_path @ '' ''
          @ str_join '' '' [''--project'', output_dir clApp, ''--name'', ''exp''])"
    by (simp add: yolo_cmd_str_def yolo_cmd_def)
  obtain r f where o: "os_system e (yolo_cmd_str clApp image_path) (fs w) = (r, f)"
    by (cases "os_system e (yolo_cmd_str clApp image_path) (fs w)")
  have "fs (run_yolo_detection e clApp image_path w) = (fs w)\<lparr>root := f\<rparr>"
    and "cmds (run_yolo_detection e clApp image_path w) = cmds w @ [yolo_cmd_str clApp image_path]"
    and "stdout (run_yolo_detection e clApp image_path w)
         = stdout w @
           (case r of
              Inl ex \<Rightarrow> [''Error running YOLO detection: '' @ str_exn ex]
            | Inr exit_code \<Rightarrow>
                if exit_code = 0 then []
                else [''Error running YOLO detection: YOLO detection failed with code ''
                      @ str_int exit_code])"
    using o by (auto simp: run_yolo_detection_def Let_def print_def str_exn_def split: sum.splits)
  with o show ?thesis unfolding s[symmetric] by simp
qed

text \<open>
  The command of the live route, whose source is the device token \<^verbatim>\<open>0\<close>, given to a
  detector that writes the run directory \<^verbatim>\<open>exp2\<close>: the directory is there afterwards.
\<close>

theorem C4_single_command_string_witness:
  "cmds (run_yolo_detection (demo_env (detect_dirs 6 [(''exp'', run_dir 5 77), (''exp2'', run_dir 5 97)])) demo_app ''0''
           (demo_world (demo_fs [1, 2, 3])))
     = [''python /app/yolov5/detect.py --weights /app/yolov5/my_model.pt --img 416 --conf 0.5 --source 0 --project /app/yolov5/runs/detect --name exp'']
   \<and> fs (run_yolo_detection (demo_env (detect_dirs 6 [(''exp'', run_dir 5 77), (''exp2'', run_dir 5 97)])) demo_app ''0''
           (demo_world (demo_fs [1, 2, 3])))
     = demo_fs_runs [1, 2, 3] [(''exp'', run_dir 5 77), (''exp2'', run_dir 5 97)]\<lparr>root :=
         Dir 1 [(''app'',
                 Dir 1 [(''yolov5'',
                         Dir 1 [(''my_model.pt'', File 1 [1, 2, 3]),
                                (''runs'', Dir 1 [(''detect'', Dir 6 [(''exp'', run_dir 5 77), (''exp2'', run_dir 5 97)])])]),
                        (''data'', Dir 1 [])])]\<rparr>
   \<and> stdout (run_yolo_detection (demo_env (detect_dirs 6 [(''exp'', run_dir 5 77), (''exp2'', run_dir 5 97)])) demo_app ''0''
           (demo_world (demo_fs [1, 2, 3]))) = []"
proof -
  let ?e = "demo_env (detect_dirs 6 [(''exp'', run_dir 5 77), (''exp2'', run_dir 5 97)])"
  let ?w = "demo_world (demo_fs [1, 2, 3])"
  let ?S = "str_join '' '' [''python'', path_join (base_dir demo_app) [''yolov5'', ''detect.py''],
                          ''--weights'', model_path demo_app, ''--img'', ''416'', ''--conf'', ''0.5'',
                          ''--source'']
          @ '' '' @ ''0'' @ '' ''
          @ str_join '' '' [''--project'', output_dir demo_app, ''--name'', ''exp'']"
  have S: "?S = ''python /app/yolov5/detect.py --weights /app/yolov5/my_model.pt --img 416 --conf 0.5 --source 0 --project /app/yolov5/runs/detect --name exp''"
    by code_simp
  have c: "cmds ?w = []" and o: "stdout ?w = []" by (simp_all add: demo_world_def)
  have f: "(fs ?w)\<lparr>root := snd (os_system ?e ''python /app/yolov5/detect.py --weights /app/yolov5/my_model.pt --img 416 --conf 0.5 --source 0 --project /app/yolov5/runs/detect --name exp'' (fs ?w))\<rparr>
           = demo_fs_runs [1, 2, 3] [(''exp'', run_dir 5 77), (''exp2'', run_dir 5 97)]\<lparr>root :=
               Dir 1 [(''app'',
                       Dir 1 [(''yolov5'',
                               Dir 1 [(''my_model.pt'', File 1 [1, 2, 3]),
                                      (''runs'', Dir 1 [(''detect'', Dir 6 [(''exp'', run_dir 5 77), (''exp2'', run_dir 5 97)])])]),
                              (''data'', Dir 1 [])])]\<rparr>"
    by code_simp
  have r: "fst (os_system ?e ''python /app/yolov5/detect.py --weights /app/yolov5/my_model.pt --img 416 --conf 0.5 --source 0 --project /app/yolov5/runs/detect --name exp'' (fs ?w)) = Inr 0"
    by code_simp
  note T = C4_single_command_string[of ?e demo_app "''0''" ?w, unfolded S]
  from T show ?thesis by (simp only: f r c o) simp
qed

section \<open>The route around the detection\<close>

lemma ClientApp_init_fields:
  assumes "ClientApp_init e w = (Inr clApp, w1)"
  shows "base_dir clApp = file_dir e" "filename clApp = ''inputImage.jpg''"
    "output_dir clApp = path_join (file_dir e) [''yolov5'', ''runs'', ''detect'']"
    "model_path clApp = path_join (file_dir e) [''yolov5'', ''my_model.pt'']"
  using assms
  by (auto simp: ClientApp_init_def Let_def split: prod.splits sum.splits)

lemma predictRoute_after_detection:
  assumes "ClientApp_init e w = (Inr clApp, w1)"
    and "predict_input e clApp req w1 = (Next image_path, w2)"
  shows "fst (predictRoute e req w)
         = (case predict_output clApp (fs (run_yolo_detection e clApp image_path w2)) of
              Inl ex \<Rightarrow> Inr (jsonify [(''error'', str_exn ex)] 500)
            | Inr r \<Rightarrow> Inr r)"
    and "cmds (snd (predictRoute e req w)) = cmds w2 @ [yolo_cmd_str clApp image_path]"
    and "fs (snd (predictRoute e req w))
         = (fs w2)\<lparr>root := snd (os_system e (yolo_cmd_str clApp image_path) (fs w2))\<rparr>"
proof -
  let ?w3 = "run_yolo_detection e clApp image_path w2"
  have t: "predict_try e clApp req w1 = (predict_output clApp (fs ?w3), ?w3)"
    using assms(2) by (simp add: predict_try_def Let_def)
  have r: "predictRoute e req w
           = (case predict_output clApp (fs ?w3) of
                Inl ex \<Rightarrow> (Inr (jsonify [(''error'', str_exn ex)] 500), print (str_exn ex) ?w3)
              | Inr r \<Rightarrow> (Inr r, ?w3))"
    using assms(1) t by (simp add: predictRoute_def)
  obtain rr f where o: "os_system e (yolo_cmd_str clApp image_path) (fs w2) = (rr, f)"
    by (cases "os_system e (yolo_cmd_str clApp image_path) (fs w2)")
  have c3: "cmds ?w3 = cmds w2 @ [yolo_cmd_str clApp image_path]"
    and f3: "fs ?w3 = (fs w2)\<lparr>root := f\<rparr>"
    using o by (auto simp: run_yolo_detection_def Let_def print_def split: sum.splits)
  show "fst (predictRoute e req w)
         = (case predict_output clApp (fs ?w3) of
              Inl ex \<Rightarrow> Inr (jsonify [(''error'', str_exn ex)] 500)
            | Inr r \<Rightarrow> Inr r)"
    unfolding r by (simp split: sum.splits)
  show "cmds (snd (predictRoute e req w)) = cmds w2 @ [yolo_cmd_str clApp image_path]"
    unfolding r using c3 by (simp add: print_def split: sum.splits)
  show "fs (snd (predictRoute e req w))
         = (fs w2)\<lparr>root := snd (os_system e (yolo_cmd_str clApp image_path) (fs w2))\<rparr>"
    unfolding r using f3 o by (simp add: print_def split: sum.splits)
qed

lemma predict_output_no_folders:
  "exp_folders f (output_dir clApp) = Inr [] \<Longrightarrow>
   predict_output clApp f = Inr (jsonify [(''error'', ''No experiment folders found'')] 500)"
  by (simp add: predict_output_def latest_image_def)

lemma predict_output_no_image:
  assumes "exp_folders f (output_dir clApp) = Inr folders" "folders \<noteq> []"
    and "latest_exp_folder f (output_dir clApp) folders = Inr latest"
    and "\<not> path_exists f (path_join (output_dir clApp) [latest, ''image0.jpg''])"
  shows "predict_output clApp f = Inr (jsonify [(''error'', ''Predicted image not found'')] 500)"
  using assms by (simp add: predict_output_def latest_image_def)

section \<open>Missing artifacts\<close>

text \<open>
  C6, as the code has it. After the detection of a predict call: when the output
  directory holds no directory whose name starts with \<^verbatim>\<open>exp\<close>, the route answers 500
  with \<^verbatim>\<open>No experiment folders found\<close>; otherwise a latest such directory is found, and
  when it does not hold \<^verbatim>\<open>image0.jpg\<close> the route answers 500 with
  \<^verbatim>\<open>Predicted image not found\<close>.
\<close>

theorem C6_missing_artifact_reported:
  assumes "ClientApp_init e w = (Inr clApp, w1)"
    and "predict_input e clApp req w1 = (Next image_path, w2)"
    and "w3 = run_yolo_detection e clApp image_path w2"
    and "exp_folders (fs w3) (output_dir clApp) = Inr folders"
  shows "(folders = [] \<longrightarrow>
            fst (predictRoute e req w)
              = Inr (jsonify [(''error'', ''No experiment folders found'')] 500))
       \<and> (folders \<noteq> [] \<longrightarrow>
            (\<exists>latest. latest_exp_folder (fs w3) (output_dir clApp) folders = Inr latest
               \<and> (\<not> path_exists (fs w3) (path_join (output_dir clApp) [latest, ''image0.jpg''])
                    \<longrightarrow> fst (predictRoute e req w)
                          = Inr (jsonify [(''error'', ''Predicted image not found'')] 500))))"
proof (intro conjI impI)
  assume "folders = []"
  with assms(4) have "predict_output clApp (fs w3)
      = Inr (jsonify [(''error'', ''No experiment folders found'')] 500)"
    by (simp add: predict_output_no_folders)
  then show "fst (predictRoute e req w)
      = Inr (jsonify [(''error'', ''No experiment folders found'')] 500)"
    using predictRoute_after_detection(1)[OF assms(1,2)] assms(3) by simp
next
  assume ne: "folders \<noteq> []"
  from latest_exp_folder_total[OF assms(4) ne] obtain latest where
    la: "latest_exp_folder (fs w3) (output_dir clApp) folders = Inr latest" by blast
  have "fst (predictRoute e req w) = Inr (jsonify [(''error'', ''Predicted image not found'')] 500)"
    if "\<not> path_exists (fs w3) (path_join (output_dir clApp) [latest, ''image0.jpg''])"
    using predict_output_no_image[OF assms(4) ne la that]
      predictRoute_after_detection(1)[OF assms(1,2)] assms(3) by simp
  with la show "\<exists>latest. latest_exp_folder (fs w3) (output_dir clApp) folders = Inr latest
      \<and> (\<not> path_exists (fs w3) (path_join (output_dir clApp) [latest, ''image0.jpg''])
           \<longrightarrow> fst (predictRoute e req w)
                 = Inr (jsonify [(''error'', ''Predicted image not found'')] 500))"
    by blast
qed

text \<open>Both cases on the example deployment: no run directory, and one without the image.\<close>

theorem C6_missing_artifact_reported_witness:
  "fst (predictRoute (demo_env (detect_nothing 0)) (image_request ''r1'' ''TQ=='')
          (demo_world (demo_fs_runs [1, 2, 3] [])))
     = Inr (jsonify [(''error'', ''No experiment folders found'')] 500)
   \<and> fst (predictRoute (demo_env (detect_nothing 0)) (image_request ''r1'' ''TQ=='')
          (demo_world (demo_fs_runs [1, 2, 3] [(''exp'', Dir 5 [])])))
     = Inr (jsonify [(''error'', ''Predicted image not found'')] 500)"
proof
  let ?e = "demo_env (detect_nothing 0)"
  let ?req = "image_request ''r1'' ''TQ==''"
  let ?w = "demo_world (demo_fs_runs [1, 2, 3] [])"
  let ?i = "ClientApp_init ?e ?w"
  let ?p = "predict_input ?e demo_app ?req (snd ?i)"
  let ?w3 = "run_yolo_detection ?e demo_app ''/app/data/inputImage.jpg'' (snd ?p)"
  have "fst ?i = Inr demo_app" by code_simp
  then have h1: "?i = (Inr demo_app, snd ?i)" by (metis prod.collapse)
  have "fst ?p = Next ''/app/data/inputImage.jpg''" by code_simp
  then have h2: "?p = (Next ''/app/data/inputImage.jpg'', snd ?p)" by (metis prod.collapse)
  have h4: "exp_folders (fs ?w3) (output_dir demo_app) = Inr []" by code_simp
  from C6_missing_artifact_reported[OF h1 h2 refl h4]
  show "fst (predictRoute ?e ?req ?w)
        = Inr (jsonify [(''error'', ''No experiment folders found'')] 500)"
    by simp
next
  let ?e = "demo_env (detect_nothing 0)"
  let ?req = "image_request ''r1'' ''TQ==''"
  let ?w = "demo_world (demo_fs_runs [1, 2, 3] [(''exp'', Dir 5 [])])"
  let ?i = "ClientApp_init ?e ?w"
  let ?p = "predict_input ?e demo_app ?req (snd ?i)"
  let ?w3 = "run_yolo_detection ?e demo_app ''/app/data/inputImage.jpg'' (snd ?p)"
  have "fst ?i = Inr demo_app" by code_simp
  then have h1: "?i = (Inr demo_app, snd ?i)" by (metis prod.collapse)
  have "fst ?p = Next ''/app/data/inputImage.jpg''" by code_simp
  then have h2: "?p = (Next ''/app/data/inputImage.jpg'', snd ?p)" by (metis prod.collapse)
  have h4: "exp_folders (fs ?w3) (output_dir demo_app) = Inr [''exp'']" by code_simp
  have la: "latest_exp_folder (fs ?w3) (output_dir demo_app) [''exp''] = Inr ''exp''"
    by code_simp
  have ab: "\<not> path_exists (fs ?w3) (path_join (output_dir demo_app) [''exp'', ''image0.jpg''])"
    by code_simp
  from C6_missing_artifact_reported[OF h1 h2 refl h4] la ab
  show "fst (predictRoute ?e ?req ?w)
        = Inr (jsonify [(''error'', ''Predicted image not found'')] 500)"
    by auto
qed

text \<open>
  C6, as stated, fails. The claim: when the experiment directory expected of a
  detection run, or the result file in it, is absent, an error is returned and never a
  success. Here the detector exits with status 0 and writes nothing, neither
  \<^verbatim>\<open>exp2\<close> nor a directory named after the request; the route answers 200 with the
  image of the earlier run.
\<close>

theorem C6_counterexample:
  "fst (predictRoute (demo_env (detect_nothing 0)) (image_request ''r2'' ''YQ=='')
          (demo_world (demo_fs [1, 2, 3])))
     = Inr (jsonify [(''image'', ''TQ=='')] 200)
   \<and> \<not> path_exists (fs (snd (predictRoute (demo_env (detect_nothing 0))
                (image_request ''r2'' ''YQ=='') (demo_world (demo_fs [1, 2, 3])))))
                ''/app/yolov5/runs/detect/exp2''
   \<and> \<not> path_exists (fs (snd (predictRoute (demo_env (detect_nothing 0))
                (image_request ''r2'' ''YQ=='') (demo_world (demo_fs [1, 2, 3])))))
                ''/app/yolov5/runs/detect/r2''"
  by code_simp

section \<open>The input image path\<close>

text \<open>
  C7, as the code has it. Whatever the request, the detector is given
  \<^verbatim>\<open>data/inputImage.jpg\<close> under the directory of \<^verbatim>\<open>app.py\<close>, and the decoded image is
  stored as the file the decoder keeps under the fixed name \<^verbatim>\<open>inputImage.jpg\<close>: after
  the decoding that file holds the bytes of this request's image, whatever an earlier
  request had stored there.
\<close>

theorem C7_fixed_input_path:
  assumes "ClientApp_init e w = (Inr clApp, w1)"
    and "predict_input e clApp req w1 = (Next image_path, w2)"
  shows "image_path = path_join (file_dir e) [''data'', ''inputImage.jpg'']
       \<and> (\<exists>kv imgstring bs.
             body req = Some (JObj kv) \<and> map_of kv ''image'' = Some (JStr imgstring)
           \<and> b64decode imgstring = Some bs
           \<and> read_file (fs w2) (decode_target e ''inputImage.jpg'') = Inr bs)"
proof -
  have fn: "filename clApp = ''inputImage.jpg''"
    using ClientApp_init_fields(2)[OF assms(1)] .
  from assms(2) obtain j img imgstring where
    b: "body req = Some j" and g: "json_get j ''image'' = Inr img"
    and s: "img = JStr imgstring"
    and d: "decodeImage imgstring (decode_target e (filename clApp)) w1 = Inr w2"
    and ip: "image_path = image_path_of e clApp"
    by (auto simp: predict_input_def request_json_def
             split: if_splits sum.splits json.splits option.splits)
  from g s obtain kv where j: "j = JObj kv" and m: "map_of kv ''image'' = Some (JStr imgstring)"
    by (auto simp: json_get_def split: json.splits option.splits)
  from d obtain bs where bd: "b64decode imgstring = Some bs"
    and wr: "write_file (decode_target e (filename clApp)) bs w1 = Inr w2"
    by (auto simp: decodeImage_def split: option.splits)
  from read_after_write[OF wr] have "read_file (fs w2) (decode_target e ''inputImage.jpg'') = Inr bs"
    by (simp add: fn)
  with b j m bd ip fn show ?thesis
    by (auto simp: image_path_of_def)
qed

text \<open>
  Request \<^verbatim>\<open>r1\<close> on the example deployment, and request \<^verbatim>\<open>r2\<close> after it: the one
  file holds the byte 77 of the first and then the byte 97 of the second.
\<close>

theorem C7_fixed_input_path_witness:
  "fst (predict_input (demo_env (detect_nothing 0)) demo_app (image_request ''r1'' ''TQ=='')
          (snd (ClientApp_init (demo_env (detect_nothing 0)) (demo_world (demo_fs [1, 2, 3])))))
     = Next (path_join (file_dir (demo_env (detect_nothing 0))) [''data'', ''inputImage.jpg''])
   \<and> read_file
        (fs (snd (predict_input (demo_env (detect_nothing 0)) demo_app (image_request ''r1'' ''TQ=='')
                    (snd (ClientApp_init (demo_env (detect_nothing 0))
                           (demo_world (demo_fs [1, 2, 3])))))))
        (decode_target (demo_env (detect_nothing 0)) ''inputImage.jpg'') = Inr [77]
   \<and> fst (predict_input (demo_env (detect_nothing 0)) demo_app (image_request ''r2'' ''YQ=='')
          (snd (ClientApp_init (demo_env (detect_nothing 0))
                 (snd (predictRoute (demo_env (detect_nothing 0)) (image_request ''r1'' ''TQ=='')
                         (demo_world (demo_fs [1, 2, 3])))))))
     = Next (path_join (file_dir (demo_env (detect_nothing 0))) [''data'', ''inputImage.jpg''])
   \<and> read_file
        (fs (snd (predict_input (demo_env (detect_nothing 0)) demo_app (image_request ''r2'' ''YQ=='')
                    (snd (ClientApp_init (demo_env (detect_nothing 0))
                           (snd (predictRoute (demo_env (detect_nothing 0))
                                   (image_request ''r1'' ''TQ=='')
                                   (demo_world (demo_fs [1, 2, 3])))))))))
        (decode_target (demo_env (detect_nothing 0)) ''inputImage.jpg'') = Inr [97]"
proof -
  let ?e = "demo_env (detect_nothing 0)"
  let ?w = "demo_world (demo_fs [1, 2, 3])"
  let ?i = "ClientApp_init ?e ?w"
  let ?p = "predict_input ?e demo_app (image_request ''r1'' ''TQ=='') (snd ?i)"
  let ?w' = "snd (predictRoute ?e (image_request ''r1'' ''TQ=='') ?w)"
  let ?i' = "ClientApp_init ?e ?w'"
  let ?p' = "predict_input ?e demo_app (image_request ''r2'' ''YQ=='') (snd ?i')"
  have d1: "b64decode ''TQ=='' = Some [77]" and d2: "b64decode ''YQ=='' = Some [97]"
    by code_simp+
  have "fst ?i = Inr demo_app" by code_simp
  then have h1: "?i = (Inr demo_app, snd ?i)" by (metis prod.collapse)
  have "fst ?p = Next ''/app/data/inputImage.jpg''" by code_simp
  then have h2: "?p = (Next ''/app/data/inputImage.jpg'', snd ?p)" by (metis prod.collapse)
  have "fst ?i' = Inr demo_app" by code_simp
  then have h1': "?i' = (Inr demo_app, snd ?i')" by (metis prod.collapse)
  have "fst ?p' = Next ''/app/data/inputImage.jpg''" by code_simp
  then have h2': "?p' = (Next ''/app/data/inputImage.jpg'', snd ?p')" by (metis prod.collapse)
  from C7_fixed_input_path[OF h1 h2] d1
  have A: "''/app/data/inputImage.jpg'' = path_join (file_dir ?e) [''data'', ''inputImage.jpg'']"
    and B: "read_file (fs (snd ?p)) (decode_target ?e ''inputImage.jpg'') = Inr [77]"
    by (auto simp: image_request_def)
  from C7_fixed_input_path[OF h1' h2'] d2
  have B': "read_file (fs (snd ?p')) (decode_target ?e ''inputImage.jpg'') = Inr [97]"
    by (auto simp: image_request_def)
  from h2 h2' A B B' show ?thesis by (metis fst_conv)
qed

text \<open>
  C7, as stated, fails. The claim: two requests with distinct correlation ids have
  their decoded images written to distinct paths. Requests \<^verbatim>\<open>r1\<close> and \<^verbatim>\<open>r2\<close> give
  the detector the same source path and the same command, and the second overwrites the
  file the first had decoded.
\<close>

theorem C7_counterexample:
  "cmds (snd (predictRoute (demo_env (detect_nothing 0)) (image_request ''r1'' ''TQ=='')
                (demo_world (demo_fs [1, 2, 3]))))
     = cmds (snd (predictRoute (demo_env (detect_nothing 0)) (image_request ''r2'' ''YQ=='')
                (demo_world (demo_fs [1, 2, 3]))))
   \<and> fst (predict_input (demo_env (detect_nothing 0)) demo_app (image_request ''r1'' ''TQ=='')
            (demo_world (demo_fs [1, 2, 3]))) = Next ''/app/data/inputImage.jpg''
   \<and> fst (predict_input (demo_env (detect_nothing 0)) demo_app (image_request ''r2'' ''YQ=='')
            (demo_world (demo_fs [1, 2, 3]))) = Next ''/app/data/inputImage.jpg''
   \<and> read_file (fs (snd (predictRoute (demo_env (detect_nothing 0)) (image_request ''r1'' ''TQ=='')
                (demo_world (demo_fs [1, 2, 3]))))) ''/app/data/inputImage.jpg'' = Inr [77]
   \<and> read_file (fs (snd (predictRoute (demo_env (detect_nothing 0)) (image_request ''r2'' ''YQ=='')
                (snd (predictRoute (demo_env (detect_nothing 0)) (image_request ''r1'' ''TQ=='')
                (demo_world (demo_fs [1, 2, 3]))))))) ''/app/data/inputImage.jpg'' = Inr [97]"
  by code_simp

section \<open>Construction when the model does not load\<close>



end
